theory Spec2Isabelle
  imports Complex_Main "HOL-Library.Monad_Syntax"
begin

section \<open>Exceptions (src/services/exceptions.py and the library failures the code names)\<close>

text \<open>
  Python exceptions are values. An exception carries its class, the message that
  \<^verbatim>\<open>str(exc)\<close> returns and, for \<^verbatim>\<open>AIResponseValidationError\<close>, the
  \<^verbatim>\<open>raw_response\<close> attribute. The classes are those the repository defines or names
  (\<^verbatim>\<open>httpx.HTTPStatusError\<close>, \<^verbatim>\<open>httpx.TimeoutException\<close>, the worker's
  \<^verbatim>\<open>LockAcquisitionError\<close>), the \<^verbatim>\<open>DataError\<close> with which the database refuses a
  row, and the built-in ones
  that its statements can raise. The model covers the \<^verbatim>\<open>Exception\<close> hierarchy; process-level
  \<^verbatim>\<open>BaseException\<close>s (cancellation of the coroutine, keyboard interrupt) are outside it.
\<close>

datatype exc_type =
    Exception
  | AnalysisError
  | DocumentNotFoundError
  | EmptyDocumentError
  | AITimeoutError
  | AIResponseValidationError
  | HTTPStatusError
  | TimeoutException
  | LockAcquisitionError
  | DataError
  | AttributeError
  | TypeError
  | ValueError
  | IndexError
  | KeyError

datatype exn = Exc (etype: exc_type) (message: string) (raw_response: "string option")

text \<open>The class hierarchy: every class derives from \<^verbatim>\<open>Exception\<close>; the four service
  errors derive from \<^verbatim>\<open>AnalysisError\<close>.\<close>

fun issubclass :: "exc_type \<Rightarrow> exc_type \<Rightarrow> bool" where
  "issubclass t Exception = True"
| "issubclass t AnalysisError =
     (t = AnalysisError \<or> t = DocumentNotFoundError \<or> t = EmptyDocumentError
      \<or> t = AITimeoutError \<or> t = AIResponseValidationError)"
| "issubclass t u = (t = u)"

definition isinstance :: "exn \<Rightarrow> exc_type \<Rightarrow> bool" where
  "isinstance e t = issubclass (etype e) t"

text \<open>\<^verbatim>\<open>except (T1, T2, ...) as exc\<close> matches when the exception is an instance of one
  of the listed classes.\<close>

definition catches :: "exc_type list \<Rightarrow> exn \<Rightarrow> bool" where
  "catches ts e = list_ex (isinstance e) ts"

section \<open>Retry policy (src/services/retry.py)\<close>

text \<open>
  An async callable with side effects is a state transformer: from the state of its
  world it yields either a raised exception (\<open>Inl\<close>) or a value (\<open>Inr\<close>), and the
  next state. The wrapper's own effects are recorded in a trace: one \<open>Call\<close> for every
  \<^verbatim>\<open>await func(...)\<close>, one \<open>Sleep d\<close> for every \<^verbatim>\<open>await asyncio.sleep(d)\<close>.
\<close>

datatype effect = Call | Sleep real

type_synonym ('s, 'a) callable = "'s \<Rightarrow> (exn + 'a) \<times> 's"

text \<open>The body of \<^verbatim>\<open>for attempt in range(max_retries)\<close>, over the list of the
  remaining attempt indices, followed by \<^verbatim>\<open>raise last_exception\<close>. Raising
  \<^verbatim>\<open>None\<close> is a \<^verbatim>\<open>TypeError\<close> in Python.\<close>

fun retry_loop ::
  "('s, 'a) callable \<Rightarrow> real \<Rightarrow> exc_type list \<Rightarrow> nat list \<Rightarrow> exn option \<Rightarrow> 's
     \<Rightarrow> (exn + 'a) \<times> 's \<times> effect list" where
  "retry_loop func base_delay retryable_exceptions [] last_exception s =
     (case last_exception of
        None \<Rightarrow> (Inl (Exc TypeError ''exceptions must derive from BaseException'' None), s, [])
      | Some exc \<Rightarrow> (Inl exc, s, []))"
| "retry_loop func base_delay retryable_exceptions (attempt # rest) last_exception s =
     (case func s of
        (Inr v, s') \<Rightarrow> (Inr v, s', [Call])
      | (Inl exc, s') \<Rightarrow>
          if catches retryable_exceptions exc then
            (let delay = base_delay * 2 ^ attempt;
                 (r, s'', tr) =
                   retry_loop func base_delay retryable_exceptions rest (Some exc) s'
             in (r, s'', Call # Sleep delay # tr))
          else (Inl exc, s', [Call]))"

definition retry_with_backoff ::
  "('s, 'a) callable \<Rightarrow> int \<Rightarrow> real \<Rightarrow> exc_type list \<Rightarrow> 's
     \<Rightarrow> (exn + 'a) \<times> 's \<times> effect list" where
  "retry_with_backoff func max_retries base_delay retryable_exceptions s =
     retry_loop func base_delay retryable_exceptions [0..<nat max_retries] None s"

text \<open>The defaults of the signature.\<close>

definition default_max_retries :: int where
  "default_max_retries = 3"

definition default_base_delay :: real where
  "default_base_delay = 1.0"

definition default_retryable_exceptions :: "exc_type list" where
  "default_retryable_exceptions = [AITimeoutError, HTTPStatusError]"

text \<open>Observations on a callable: the outcome of its \<open>n\<close>-th invocation (counted from
  0) and the state after \<open>n\<close> invocations, when it is invoked repeatedly from \<open>s\<close>.\<close>

fun after_calls :: "('s, 'a) callable \<Rightarrow> 's \<Rightarrow> nat \<Rightarrow> 's" where
  "after_calls func s 0 = s"
| "after_calls func s (Suc n) = after_calls func (snd (func s)) n"

definition nth_outcome :: "('s, 'a) callable \<Rightarrow> 's \<Rightarrow> nat \<Rightarrow> exn + 'a" where
  "nth_outcome func s n = fst (func (after_calls func s n))"

definition retryable_failure :: "exc_type list \<Rightarrow> exn + 'a \<Rightarrow> bool" where
  "retryable_failure ts r = (case r of Inl e \<Rightarrow> catches ts e | Inr _ \<Rightarrow> False)"

definition calls :: "effect list \<Rightarrow> nat" where
  "calls tr = count_list tr Call"

definition sleeps :: "effect list \<Rightarrow> real list" where
  "sleeps tr = concat (map (\<lambda>e. case e of Sleep d \<Rightarrow> [d] | Call \<Rightarrow> []) tr)"

text \<open>The trace of a run of attempts that all failed with a retryable exception:
  each attempt is one call followed by one backoff sleep.\<close>

definition retry_trace :: "real \<Rightarrow> nat list \<Rightarrow> effect list" where
  "retry_trace base_delay attempts =
     concat (map (\<lambda>attempt. [Call, Sleep (base_delay * 2 ^ attempt)]) attempts)"

section \<open>Provider client (src/services/ai_client.py)\<close>

text \<open>A message is a \<^verbatim>\<open>{role, content}\<close> pair.\<close>

record message =
  role :: string
  content :: string

text \<open>The capability \<^verbatim>\<open>AIClient.complete(messages, model)\<close> over a client whose world
  has state \<open>'c\<close>.\<close>

type_synonym 'c ai_client = "message list \<Rightarrow> string \<Rightarrow> ('c, string) callable"

subsection \<open>The scripted client of the test suite (tests/conftest.py)\<close>

record MockAIClient =
  responses :: "(exn + string) list"
  call_count :: nat

text \<open>\<^verbatim>\<open>self.call_count += 1; resp = self._responses.pop(0)\<close>, raising \<open>resp\<close> when it
  is an exception. Popping from an empty list raises \<^verbatim>\<open>IndexError\<close>.\<close>

definition MockAIClient_complete :: "MockAIClient ai_client" where
  "MockAIClient_complete messages model c =
     (let c1 = c\<lparr>call_count := call_count c + 1\<rparr>
      in case responses c1 of
           [] \<Rightarrow> (Inl (Exc IndexError ''pop from empty list'' None), c1)
         | resp # rest \<Rightarrow> (resp, c1\<lparr>responses := rest\<rparr>))"

subsection \<open>Variant A: \<^verbatim>\<open>AnthropicClient\<close>\<close>

text \<open>The JSON body of the request. The key \<^verbatim>\<open>system\<close> is present only when the
  code sets it.\<close>

record request_body =
  body_model :: string
  body_max_tokens :: nat
  body_messages :: "message list"
  body_system :: "string option"

text \<open>The loop \<^verbatim>\<open>for msg in messages\<close> with its two accumulators: a system message
  assigns its content to \<^verbatim>\<open>system\<close>, any other message is appended to
  \<^verbatim>\<open>non_system\<close>.\<close>

fun split_messages :: "message list \<Rightarrow> string \<Rightarrow> message list \<Rightarrow> string \<times> message list" where
  "split_messages [] system non_system = (system, non_system)"
| "split_messages (msg # rest) system non_system =
     (if role msg = ''system'' then split_messages rest (content msg) non_system
      else split_messages rest system (non_system @ [msg]))"

definition AnthropicClient_body :: "message list \<Rightarrow> string \<Rightarrow> request_body" where
  "AnthropicClient_body msgs model =
     (let (system, non_system) = split_messages msgs [] []
      in \<lparr>body_model = model, body_max_tokens = 4096, body_messages = non_system,
          body_system = (if system \<noteq> [] then Some system else None)\<rparr>)"

text \<open>
  The HTTP exchange is the transport's: \<^verbatim>\<open>self._client.post(path, json=body)\<close> either
  raises or yields a response. Of a response the code reads the status
  (\<^verbatim>\<open>raise_for_status\<close>) and \<^verbatim>\<open>response.json()["content"][0]["text"]\<close>; the
  record holds the status code, the message \<^verbatim>\<open>raise_for_status\<close> gives its
  \<^verbatim>\<open>HTTPStatusError\<close>, and what the extraction of the text evaluates to.
\<close>

record http_response =
  status_code :: nat
  status_error :: string
  completion_text :: "exn + string"

type_synonym 'n transport = "string \<Rightarrow> request_body \<Rightarrow> ('n, http_response) callable"

text \<open>\<^verbatim>\<open>httpx.Response.is_success\<close>: the status is 2xx.\<close>

definition is_success :: "http_response \<Rightarrow> bool" where
  "is_success resp = (200 \<le> status_code resp \<and> status_code resp \<le> 299)"

definition raise_for_status :: "http_response \<Rightarrow> exn option" where
  "raise_for_status resp =
     (if is_success resp then None else Some (Exc HTTPStatusError (status_error resp) None))"

definition AnthropicClient_complete :: "'n transport \<Rightarrow> 'n ai_client" where
  "AnthropicClient_complete post msgs model n =
     (let body = AnthropicClient_body msgs model
      in case post ''/v1/messages'' body n of
           (Inl exc, n') \<Rightarrow>
             if isinstance exc TimeoutException
             then (Inl (Exc AITimeoutError (''Anthropic request timed out: '' @ message exc) None), n')
             else (Inl exc, n')
         | (Inr response, n') \<Rightarrow>
             (case raise_for_status response of
                Some exc \<Rightarrow>
                  if isinstance exc TimeoutException
                  then (Inl (Exc AITimeoutError (''Anthropic request timed out: '' @ message exc) None), n')
                  else (Inl exc, n')
              | None \<Rightarrow> (completion_text response, n')))"

text \<open>A transport that answers from a script, one entry per request, for running the
  client on concrete exchanges.\<close>

definition scripted_transport :: "((exn + http_response) list) transport" where
  "scripted_transport path body script =
     (case script of
        [] \<Rightarrow> (Inl (Exc Exception ''connection refused'' None), [])
      | r # rest \<Rightarrow> (r, rest))"

section \<open>Enumerations (src/models/enums.py)\<close>

datatype AnalysisStatus = PENDING | PROCESSING | COMPLETED | FAILED | TIMED_OUT

datatype ClauseType =
    PENALTY | AUTO_RENEWAL | CONFIDENTIALITY | TERMINATION | LIABILITY
  | INDEMNIFICATION | GOVERNING_LAW | PAYMENT_TERMS | FORCE_MAJEURE | OTHER

datatype RiskLevel = LOW | MEDIUM | HIGH | CRITICAL

text \<open>The members in declaration order and their string values.\<close>

definition ClauseType_members :: "ClauseType list" where
  "ClauseType_members =
     [PENALTY, AUTO_RENEWAL, CONFIDENTIALITY, TERMINATION, LIABILITY,
      INDEMNIFICATION, GOVERNING_LAW, PAYMENT_TERMS, FORCE_MAJEURE, OTHER]"

fun ClauseType_value :: "ClauseType \<Rightarrow> string" where
  "ClauseType_value PENALTY = ''PENALTY''"
| "ClauseType_value AUTO_RENEWAL = ''AUTO_RENEWAL''"
| "ClauseType_value CONFIDENTIALITY = ''CONFIDENTIALITY''"
| "ClauseType_value TERMINATION = ''TERMINATION''"
| "ClauseType_value LIABILITY = ''LIABILITY''"
| "ClauseType_value INDEMNIFICATION = ''INDEMNIFICATION''"
| "ClauseType_value GOVERNING_LAW = ''GOVERNING_LAW''"
| "ClauseType_value PAYMENT_TERMS = ''PAYMENT_TERMS''"
| "ClauseType_value FORCE_MAJEURE = ''FORCE_MAJEURE''"
| "ClauseType_value OTHER = ''OTHER''"

definition RiskLevel_members :: "RiskLevel list" where
  "RiskLevel_members = [LOW, MEDIUM, HIGH, CRITICAL]"

fun RiskLevel_value :: "RiskLevel \<Rightarrow> string" where
  "RiskLevel_value LOW = ''LOW''"
| "RiskLevel_value MEDIUM = ''MEDIUM''"
| "RiskLevel_value HIGH = ''HIGH''"
| "RiskLevel_value CRITICAL = ''CRITICAL''"

text \<open>The enum call \<^verbatim>\<open>ClauseType(v)\<close> looks the member up by value; \<open>None\<close> stands for
  the \<^verbatim>\<open>ValueError\<close> it raises when there is no such member.\<close>

definition ClauseType_of :: "string \<Rightarrow> ClauseType option" where
  "ClauseType_of v = find (\<lambda>member. ClauseType_value member = v) ClauseType_members"

definition RiskLevel_of :: "string \<Rightarrow> RiskLevel option" where
  "RiskLevel_of v = find (\<lambda>member. RiskLevel_value member = v) RiskLevel_members"

section \<open>Decoded JSON and the libraries of the validator\<close>

text \<open>
  A Python \<^verbatim>\<open>float\<close> is abstracted to the real number it denotes, or one of the three
  special values that \<^verbatim>\<open>json.loads\<close> also produces; rounding is not modelled. The
  comparisons are those of IEEE floats: every comparison with \<open>NaN\<close> is false.
\<close>

datatype pyfloat = Finite real | PosInf | NegInf | NaN

fun float_ge :: "pyfloat \<Rightarrow> real \<Rightarrow> bool" where
  "float_ge (Finite x) b = (b \<le> x)"
| "float_ge PosInf b = True"
| "float_ge NegInf b = False"
| "float_ge NaN b = False"

fun float_le :: "pyfloat \<Rightarrow> real \<Rightarrow> bool" where
  "float_le (Finite x) b = (x \<le> b)"
| "float_le PosInf b = False"
| "float_le NegInf b = True"
| "float_le NaN b = False"

text \<open>What \<^verbatim>\<open>json.loads\<close> returns: an object is a \<^verbatim>\<open>dict\<close>, here its items.\<close>

datatype json =
    JNull
  | JBool bool
  | JInt int
  | JFloat pyfloat
  | JStr string
  | JArr "json list"
  | JObj "(string \<times> json) list"

text \<open>
  The library functions the validator calls are parameters of the model:
  \<^verbatim>\<open>json.loads\<close> (\<open>None\<close> for \<^verbatim>\<open>JSONDecodeError\<close>), the validators pydantic applies to
  a field annotated \<^verbatim>\<open>bool\<close>, \<^verbatim>\<open>str\<close>, \<^verbatim>\<open>int\<close> or \<^verbatim>\<open>float\<close> (\<open>None\<close> when the input
  is rejected; they decide which inputs of another type are coerced), and the text of a
  \<^verbatim>\<open>pydantic.ValidationError\<close> for rejected data.
\<close>

record pylib =
  json_loads :: "string \<Rightarrow> json option"
  pyd_bool :: "json \<Rightarrow> bool option"
  pyd_str :: "json \<Rightarrow> string option"
  pyd_int :: "json \<Rightarrow> int option"
  pyd_float :: "json \<Rightarrow> pyfloat option"
  pyd_error_str :: "json \<Rightarrow> string"

section \<open>Extraction schema (src/prompts/schemas.py)\<close>

definition VALID_CLAUSE_TYPES :: "string list" where
  "VALID_CLAUSE_TYPES = map ClauseType_value ClauseType_members"

definition VALID_RISK_LEVELS :: "string list" where
  "VALID_RISK_LEVELS = map RiskLevel_value RiskLevel_members"

record ClauseExtraction =
  clause_type :: string
  risk_level :: string
  title :: string
  summary :: string
  original_text :: string
  page_number :: "int option"
  confidence_score :: pyfloat

record ExtractionMetadata =
  contract_type :: string
  parties_involved :: "string list"
  effective_date :: "string option"
  total_clauses_found :: int

record AIExtractionResponse =
  is_contract :: bool
  language :: string
  clauses :: "ClauseExtraction list"
  metadata :: ExtractionMetadata

text \<open>Validation yields \<open>None\<close> where pydantic raises \<^verbatim>\<open>ValidationError\<close>. A field
  without default must be present; a field \<^verbatim>\<open>T | None = None\<close> may be absent or null.\<close>

definition required_field :: "(string \<times> json) list \<Rightarrow> string \<Rightarrow> (json \<Rightarrow> 'a option) \<Rightarrow> 'a option" where
  "required_field obj name validator =
     (case map_of obj name of None \<Rightarrow> None | Some v \<Rightarrow> validator v)"

definition optional_field ::
  "(string \<times> json) list \<Rightarrow> string \<Rightarrow> (json \<Rightarrow> 'a option) \<Rightarrow> 'a option option" where
  "optional_field obj name validator =
     (case map_of obj name of
        None \<Rightarrow> Some None
      | Some JNull \<Rightarrow> Some None
      | Some v \<Rightarrow> map_option Some (validator v))"

definition check :: "bool \<Rightarrow> 'a \<Rightarrow> 'a option" where
  "check ok v = (if ok then Some v else None)"

text \<open>The two field validators.\<close>

definition validate_clause_type :: "string \<Rightarrow> string option" where
  "validate_clause_type v = (if v \<notin> set VALID_CLAUSE_TYPES then None else Some v)"

definition validate_risk_level :: "string \<Rightarrow> string option" where
  "validate_risk_level v = (if v \<notin> set VALID_RISK_LEVELS then None else Some v)"

definition validate_ClauseExtraction :: "pylib \<Rightarrow> json \<Rightarrow> ClauseExtraction option" where
  "validate_ClauseExtraction L data =
     (case data of
        JObj obj \<Rightarrow> do {
          ct \<leftarrow> required_field obj ''clause_type'' (pyd_str L);
          ct \<leftarrow> validate_clause_type ct;
          rl \<leftarrow> required_field obj ''risk_level'' (pyd_str L);
          rl \<leftarrow> validate_risk_level rl;
          ti \<leftarrow> required_field obj ''title'' (pyd_str L);
          ti \<leftarrow> check (1 \<le> length ti) ti;
          su \<leftarrow> required_field obj ''summary'' (pyd_str L);
          su \<leftarrow> check (1 \<le> length su) su;
          ot \<leftarrow> required_field obj ''original_text'' (pyd_str L);
          ot \<leftarrow> check (1 \<le> length ot) ot;
          pn \<leftarrow> optional_field obj ''page_number'' (pyd_int L);
          cs \<leftarrow> required_field obj ''confidence_score'' (pyd_float L);
          cs \<leftarrow> check (float_ge cs 0.0 \<and> float_le cs 1.0) cs;
          Some \<lparr>clause_type = ct, risk_level = rl, title = ti, summary = su,
                original_text = ot, page_number = pn, confidence_score = cs\<rparr>
        }
      | _ \<Rightarrow> None)"

definition validate_str_list :: "pylib \<Rightarrow> json \<Rightarrow> string list option" where
  "validate_str_list L data =
     (case data of JArr items \<Rightarrow> those (map (pyd_str L) items) | _ \<Rightarrow> None)"

definition validate_ExtractionMetadata :: "pylib \<Rightarrow> json \<Rightarrow> ExtractionMetadata option" where
  "validate_ExtractionMetadata L data =
     (case data of
        JObj obj \<Rightarrow> do {
          ct \<leftarrow> required_field obj ''contract_type'' (pyd_str L);
          ps \<leftarrow> required_field obj ''parties_involved'' (validate_str_list L);
          ed \<leftarrow> optional_field obj ''effective_date'' (pyd_str L);
          tc \<leftarrow> required_field obj ''total_clauses_found'' (pyd_int L);
          tc \<leftarrow> check (0 \<le> tc) tc;
          Some \<lparr>contract_type = ct, parties_involved = ps, effective_date = ed,
                total_clauses_found = tc\<rparr>
        }
      | _ \<Rightarrow> None)"

definition validate_clause_list :: "pylib \<Rightarrow> json \<Rightarrow> ClauseExtraction list option" where
  "validate_clause_list L data =
     (case data of JArr items \<Rightarrow> those (map (validate_ClauseExtraction L) items) | _ \<Rightarrow> None)"

text \<open>The model validator, run after the fields have been validated.\<close>

definition check_clauses_consistent_with_contract_flag ::
  "AIExtractionResponse \<Rightarrow> AIExtractionResponse option" where
  "check_clauses_consistent_with_contract_flag self =
     (if \<not> is_contract self \<and> clauses self \<noteq> [] then None else Some self)"

definition model_validate :: "pylib \<Rightarrow> json \<Rightarrow> AIExtractionResponse option" where
  "model_validate L data =
     (case data of
        JObj obj \<Rightarrow> do {
          ic \<leftarrow> required_field obj ''is_contract'' (pyd_bool L);
          la \<leftarrow> required_field obj ''language'' (pyd_str L);
          cl \<leftarrow> required_field obj ''clauses'' (validate_clause_list L);
          md \<leftarrow> required_field obj ''metadata'' (validate_ExtractionMetadata L);
          check_clauses_consistent_with_contract_flag
            \<lparr>is_contract = ic, language = la, clauses = cl, metadata = md\<rparr>
        }
      | _ \<Rightarrow> None)"

section \<open>Persistent entities (src/models)\<close>

text \<open>Identifiers are UUIDs in their text form; timestamps are points on a clock.\<close>

type_synonym uuid = string

type_synonym time = nat

text \<open>A table is keyed by its primary key \<^verbatim>\<open>id\<close>; a row holds the other columns that
  the service reads.\<close>

record Document =
  doc_tenant_id :: uuid
  extracted_text :: "string option"

record AnalysisTemplate =
  tmpl_tenant_id :: uuid
  prompt_override :: "string option"

text \<open>The columns of \<^verbatim>\<open>Analysis\<close> that the service sets. The primary key is
  generated by the database, so it is absent until the insert has been flushed; the
  column default of \<^verbatim>\<open>retry_count\<close> is 0.\<close>

record Analysis =
  analysis_id :: "uuid option"
  analysis_document_id :: uuid
  analysis_tenant_id :: uuid
  analysis_template_id :: "uuid option"
  status :: AnalysisStatus
  analysis_model_provider :: string
  analysis_model_name :: string
  started_at :: "time option"
  completed_at :: "time option"
  error_message :: "string option"
  retry_count :: int

record Clause =
  clause_analysis_id :: "uuid option"
  clause_clause_type :: ClauseType
  clause_risk_level :: RiskLevel
  clause_title :: string
  clause_summary :: string
  clause_original_text :: string
  clause_page_number :: "int option"
  clause_confidence_score :: pyfloat

section \<open>Prompt and response validation (src/prompts/clause_extraction.py)\<close>

text \<open>The default instructions \<^verbatim>\<open>SYSTEM_PROMPT\<close> are a long literal on which nothing
  below depends; the text is an argument.\<close>

definition build_extraction_prompt :: "string \<Rightarrow> string \<Rightarrow> AnalysisTemplate option \<Rightarrow> message list" where
  "build_extraction_prompt SYSTEM_PROMPT document_text template =
     (let system_content =
            (case template of
               Some t \<Rightarrow>
                 (case prompt_override t of
                    Some p \<Rightarrow> if p \<noteq> [] then p else SYSTEM_PROMPT
                  | None \<Rightarrow> SYSTEM_PROMPT)
             | None \<Rightarrow> SYSTEM_PROMPT)
      in [\<lparr>role = ''system'', content = system_content\<rparr>,
          \<lparr>role = ''user'',
           content = ''Analyze this document:'' @ [CHR 0x0A, CHR 0x0A] @ document_text\<rparr>])"

subsection \<open>String operations\<close>

text \<open>
  A Python string is the list of its characters, here those with code point below 256.
  \<^verbatim>\<open>str.isspace\<close> and the regular expression class \<^verbatim>\<open>\s\<close> hold of the same
  characters: tab, line feed, vertical tab, form feed, carriage return, the four
  separators 0x1C to 0x1F, space, next line (0x85) and no-break space (0xA0).
\<close>

definition py_isspace :: "char \<Rightarrow> bool" where
  "py_isspace c = (of_char c \<in> set [9, 10, 11, 12, 13, 28, 29, 30, 31, 32, 133, 160 :: nat])"

definition lstrip :: "string \<Rightarrow> string" where
  "lstrip s = dropWhile py_isspace s"

definition rstrip :: "string \<Rightarrow> string" where
  "rstrip s = rev (dropWhile py_isspace (rev s))"

definition strip :: "string \<Rightarrow> string" where
  "strip s = rstrip (lstrip s)"

definition startswith :: "string \<Rightarrow> string \<Rightarrow> bool" where
  "startswith s prefix = (take (length prefix) s = prefix)"

definition endswith :: "string \<Rightarrow> string \<Rightarrow> bool" where
  "endswith s suffix =
     (length suffix \<le> length s \<and> drop (length s - length suffix) s = suffix)"

definition fence :: string where
  "fence = [CHR 0x60, CHR 0x60, CHR 0x60]"

text \<open>
  \<^verbatim>\<open>re.sub(r"^```(?:json)?\s*\n?", "", text)\<close>: the pattern is anchored at the start,
  so it matches at most once, when the text begins with the fence. Every part after the
  fence is optional and greedy: the tag \<^verbatim>\<open>json\<close> if it is there, then all whitespace
  (line feeds included, which leaves nothing for the final \<^verbatim>\<open>\n?\<close>).
\<close>

definition sub_opening_fence :: "string \<Rightarrow> string" where
  "sub_opening_fence text =
     (if startswith text fence then
        (let t = drop 3 text;
             t = (if startswith t ''json'' then drop 4 t else t)
         in dropWhile py_isspace t)
      else text)"

text \<open>
  \<^verbatim>\<open>re.sub(r"\n?```\s*$", "", text)\<close>: a match ends at the end of the text and consists
  of a fence followed by whitespace only, so its fence is the last three characters before
  the trailing whitespace; the leftmost match also takes one line feed before the fence.
  No second match can follow it.
\<close>

definition sub_closing_fence :: "string \<Rightarrow> string" where
  "sub_closing_fence text =
     (let core = rstrip text in
      if endswith core fence then
        (let body = take (length core - 3) core
         in if endswith body [CHR 0x0A] then butlast body else body)
      else text)"

text \<open>
  \<^verbatim>\<open>re.search(r"\{[\s\S]*\}", text)\<close>: from the first opening brace, greedily, to the
  last closing brace after it; \<open>None\<close> when there is no such pair.
\<close>

definition search_object :: "string \<Rightarrow> string option" where
  "search_object text =
     (case dropWhile (\<lambda>c. c \<noteq> CHR ''{'') text of
        [] \<Rightarrow> None
      | brace # rest \<Rightarrow>
          if CHR ''}'' \<in> set rest
          then Some (brace # rev (dropWhile (\<lambda>c. c \<noteq> CHR ''}'') (rev rest)))
          else None)"

subsection \<open>\<^verbatim>\<open>validate_ai_response\<close>\<close>

text \<open>The text handed to the parser: stripped, and without fences when it starts with one.\<close>

definition strip_fences :: "string \<Rightarrow> string" where
  "strip_fences raw =
     (let text = strip raw
      in if startswith text fence
         then sub_closing_fence (sub_opening_fence text)
         else text)"

text \<open>The two parsing attempts; \<open>None\<close> is the Python \<^verbatim>\<open>data = None\<close> left when both
  fail.\<close>

definition parse_attempts :: "pylib \<Rightarrow> string \<Rightarrow> json option" where
  "parse_attempts L text =
     (case json_loads L text of
        Some data \<Rightarrow> Some data
      | None \<Rightarrow>
          (case search_object text of
             Some m \<Rightarrow> json_loads L m
           | None \<Rightarrow> None))"

definition validate_ai_response :: "pylib \<Rightarrow> string \<Rightarrow> exn + AIExtractionResponse" where
  "validate_ai_response L raw =
     (case parse_attempts L (strip_fences raw) of
        Some (JObj obj) \<Rightarrow>
          (case model_validate L (JObj obj) of
             Some validated \<Rightarrow> Inr validated
           | None \<Rightarrow>
               Inl (Exc AIResponseValidationError
                      (''AI response failed schema validation: '' @ pyd_error_str L (JObj obj))
                      (Some raw)))
      | _ \<Rightarrow>
          Inl (Exc AIResponseValidationError ''Failed to parse AI response as JSON.''
                 (Some raw)))"

subsection \<open>A library instance for concrete runs\<close>

text \<open>
  To run the validator on concrete inputs the library parameters are instantiated: the
  JSON decoder by a table from texts to decoded values that, like \<^verbatim>\<open>json.loads\<close>,
  ignores the JSON whitespace (space, tab, line feed, carriage return) around the text;
  the field validators by those that accept the JSON value of the annotated type (and an
  integer for \<^verbatim>\<open>float\<close>) and nothing else.
\<close>

definition json_ws :: "char \<Rightarrow> bool" where
  "json_ws c = (of_char c \<in> set [32, 9, 10, 13 :: nat])"

definition json_strip :: "string \<Rightarrow> string" where
  "json_strip s = rev (dropWhile json_ws (rev (dropWhile json_ws s)))"

definition native_bool :: "json \<Rightarrow> bool option" where
  "native_bool v = (case v of JBool b \<Rightarrow> Some b | _ \<Rightarrow> None)"

definition native_str :: "json \<Rightarrow> string option" where
  "native_str v = (case v of JStr s \<Rightarrow> Some s | _ \<Rightarrow> None)"

definition native_int :: "json \<Rightarrow> int option" where
  "native_int v = (case v of JInt i \<Rightarrow> Some i | _ \<Rightarrow> None)"

definition native_float :: "json \<Rightarrow> pyfloat option" where
  "native_float v =
     (case v of JFloat x \<Rightarrow> Some x | JInt i \<Rightarrow> Some (Finite (real_of_int i)) | _ \<Rightarrow> None)"

definition table_pylib :: "(string \<times> json) list \<Rightarrow> pylib" where
  "table_pylib table =
     \<lparr>json_loads = (\<lambda>s. map_of table (json_strip s)),
      pyd_bool = native_bool, pyd_str = native_str, pyd_int = native_int,
      pyd_float = native_float, pyd_error_str = (\<lambda>data. ''validation error'')\<rparr>"

section \<open>Analysis orchestrator (src/services/analysis_service.py)\<close>

subsection \<open>The database session\<close>

text \<open>
  The session holds the two tables that are queried, the \<^verbatim>\<open>Analysis\<close> and \<^verbatim>\<open>Clause\<close>
  objects handed to \<^verbatim>\<open>add\<close> (in order), and the number of commits that went
  through. An added \<^verbatim>\<open>Analysis\<close> stays the object the service goes on mutating, so the
  service refers to it by its position in the session. \<open>fresh_ids\<close> are the keys the
  database generates, by the number of analyses inserted before. \<open>db_fault\<close> is the
  exception with which the connection answers an operation, if it fails there.
\<close>

datatype db_op = Flush | Commit | Refresh

record db_session =
  documents :: "uuid \<rightharpoonup> Document"
  templates :: "uuid \<rightharpoonup> AnalysisTemplate"
  analyses :: "Analysis list"
  clause_rows :: "Clause list"
  commits :: nat
  fresh_ids :: "nat \<Rightarrow> uuid"
  db_fault :: "db_op \<Rightarrow> exn option"

text \<open>\<^verbatim>\<open>select(Document).where(Document.id == document_id, Document.tenant_id == tenant_id)\<close>
  followed by \<^verbatim>\<open>scalar_one_or_none()\<close>, and the same for templates.\<close>

definition select_document :: "db_session \<Rightarrow> uuid \<Rightarrow> uuid \<Rightarrow> Document option" where
  "select_document db document_id tenant_id =
     (case documents db document_id of
        None \<Rightarrow> None
      | Some row \<Rightarrow> if doc_tenant_id row = tenant_id then Some row else None)"

definition select_template :: "db_session \<Rightarrow> uuid \<Rightarrow> uuid \<Rightarrow> AnalysisTemplate option" where
  "select_template db template_id tenant_id =
     (case templates db template_id of
        None \<Rightarrow> None
      | Some row \<Rightarrow> if tmpl_tenant_id row = tenant_id then Some row else None)"

definition db_add_analysis :: "Analysis \<Rightarrow> db_session \<Rightarrow> db_session" where
  "db_add_analysis a db = db\<lparr>analyses := analyses db @ [a]\<rparr>"

definition db_add_clause :: "Clause \<Rightarrow> db_session \<Rightarrow> db_session" where
  "db_add_clause cl db = db\<lparr>clause_rows := clause_rows db @ [cl]\<rparr>"

definition set_analysis :: "nat \<Rightarrow> (Analysis \<Rightarrow> Analysis) \<Rightarrow> db_session \<Rightarrow> db_session" where
  "set_analysis ref f db = db\<lparr>analyses := (analyses db)[ref := f (analyses db ! ref)]\<rparr>"

text \<open>
  The column types of src/models/analysis.py and src/models/clause.py that a row can
  violate: \<^verbatim>\<open>String(100)\<close> for the provider and the model name, \<^verbatim>\<open>String(255)\<close> for a
  clause title, \<^verbatim>\<open>Integer\<close> (32 bits) for a page number, and the check constraint on the
  confidence score. The database refuses the insert of a row that violates one.
\<close>

definition int4 :: "int \<Rightarrow> bool" where
  "int4 n = (- 2147483648 \<le> n \<and> n \<le> 2147483647)"

definition analysis_row_ok :: "Analysis \<Rightarrow> bool" where
  "analysis_row_ok a =
     (length (analysis_model_provider a) \<le> 100 \<and> length (analysis_model_name a) \<le> 100)"

definition clause_row_ok :: "Clause \<Rightarrow> bool" where
  "clause_row_ok cl =
     (length (clause_title cl) \<le> 255
      \<and> (case clause_page_number cl of None \<Rightarrow> True | Some p \<Rightarrow> int4 p)
      \<and> float_ge (clause_confidence_score cl) 0 \<and> float_le (clause_confidence_score cl) 1)"

text \<open>
  \<^verbatim>\<open>await self._db.flush()\<close> inserts the pending analysis, which receives its generated
  key; \<^verbatim>\<open>await self._db.commit()\<close> inserts the clauses the session holds and commits;
  \<^verbatim>\<open>await self._db.refresh(analysis)\<close> reads the analysis back. Each can raise: the
  exception, if any, is given by \<open>flush_check\<close>, \<open>commit_check\<close> and the fault of
  \<open>Refresh\<close>.
\<close>

definition flush_check :: "nat \<Rightarrow> db_session \<Rightarrow> exn option" where
  "flush_check ref db =
     (case db_fault db Flush of
        Some exc \<Rightarrow> Some exc
      | None \<Rightarrow>
          if analysis_row_ok (analyses db ! ref) then None
          else Some (Exc DataError ''analysis row refused by the database'' None))"

definition commit_check :: "db_session \<Rightarrow> exn option" where
  "commit_check db =
     (case db_fault db Commit of
        Some exc \<Rightarrow> Some exc
      | None \<Rightarrow>
          if list_all clause_row_ok (clause_rows db) then None
          else Some (Exc DataError ''clause row refused by the database'' None))"

definition db_flush :: "nat \<Rightarrow> db_session \<Rightarrow> exn + db_session" where
  "db_flush ref db =
     (case flush_check ref db of
        Some exc \<Rightarrow> Inl exc
      | None \<Rightarrow>
          Inr (set_analysis ref
                 (\<lambda>a. if analysis_id a = None then a\<lparr>analysis_id := Some (fresh_ids db ref)\<rparr>
                      else a) db))"

definition db_commit :: "db_session \<Rightarrow> exn + db_session" where
  "db_commit db =
     (case commit_check db of
        Some exc \<Rightarrow> Inl exc
      | None \<Rightarrow> Inr (db\<lparr>commits := commits db + 1\<rparr>))"

definition db_refresh :: "nat \<Rightarrow> db_session \<Rightarrow> exn + Analysis" where
  "db_refresh ref db =
     (case db_fault db Refresh of
        Some exc \<Rightarrow> Inl exc
      | None \<Rightarrow> Inr (analyses db ! ref))"

subsection \<open>\<^verbatim>\<open>AnalysisService.analyze_document\<close>\<close>

text \<open>The service object and its environment: the client \<^verbatim>\<open>self._ai\<close>, the libraries
  of the validator, the default prompt, and the clock (\<open>svc_now n\<close> is what the
  \<open>n\<close>-th reading of \<^verbatim>\<open>datetime.now\<close> in a call returns).\<close>

record 'c AnalysisService =
  svc_ai :: "'c ai_client"
  svc_lib :: pylib
  svc_system_prompt :: string
  svc_now :: "nat \<Rightarrow> time"

text \<open>The closure \<^verbatim>\<open>_call_ai\<close>: its state is the captured attempt counter together
  with the client's world.\<close>

definition call_ai ::
  "'c AnalysisService \<Rightarrow> string \<Rightarrow> AnalysisTemplate option \<Rightarrow> string
     \<Rightarrow> (int \<times> 'c, string) callable" where
  "call_ai svc document_text template model_name =
     (\<lambda>(attempt_counter, c).
        let attempt_counter = attempt_counter + 1;
            msgs = build_extraction_prompt (svc_system_prompt svc) document_text template;
            (r, c') = svc_ai svc msgs model_name c
        in (r, (attempt_counter, c')))"

text \<open>The constructor call \<^verbatim>\<open>Clause(analysis_id=analysis.id, ...)\<close> once the two enum
  calls have returned.\<close>

definition make_clause :: "uuid option \<Rightarrow> ClauseType \<Rightarrow> RiskLevel \<Rightarrow> ClauseExtraction \<Rightarrow> Clause" where
  "make_clause aid ct rl clause_data =
     \<lparr>clause_analysis_id = aid, clause_clause_type = ct, clause_risk_level = rl,
      clause_title = title clause_data, clause_summary = summary clause_data,
      clause_original_text = original_text clause_data,
      clause_page_number = page_number clause_data,
      clause_confidence_score = confidence_score clause_data\<rparr>"

text \<open>The loop over \<^verbatim>\<open>validated.clauses\<close>. The enum calls raise \<^verbatim>\<open>ValueError\<close> for a
  string that is no member; clauses added before that stay in the session.\<close>

fun add_clauses :: "uuid option \<Rightarrow> ClauseExtraction list \<Rightarrow> db_session \<Rightarrow> exn option \<times> db_session" where
  "add_clauses aid [] db = (None, db)"
| "add_clauses aid (clause_data # rest) db =
     (case ClauseType_of (clause_type clause_data) of
        None \<Rightarrow>
          (Some (Exc ValueError
                   ([CHR 0x27] @ clause_type clause_data @ [CHR 0x27] @ '' is not a valid ClauseType'')
                   None), db)
      | Some ct \<Rightarrow>
          (case RiskLevel_of (risk_level clause_data) of
             None \<Rightarrow>
               (Some (Exc ValueError
                        ([CHR 0x27] @ risk_level clause_data @ [CHR 0x27] @ '' is not a valid RiskLevel'')
                        None), db)
           | Some rl \<Rightarrow>
               add_clauses aid rest (db_add_clause (make_clause aid ct rl clause_data) db)))"

text \<open>The body of the \<^verbatim>\<open>try\<close>: the exception that leaves it, if any, with the session,
  the client's world, the attempt counter and the trace of the retry wrapper.\<close>

definition try_body ::
  "'c AnalysisService \<Rightarrow> string \<Rightarrow> AnalysisTemplate option \<Rightarrow> string \<Rightarrow> nat
     \<Rightarrow> db_session \<Rightarrow> 'c \<Rightarrow> exn option \<times> db_session \<times> 'c \<times> int \<times> effect list" where
  "try_body svc document_text template model_name ref db c =
     (case retry_with_backoff (call_ai svc document_text template model_name)
             3 default_base_delay default_retryable_exceptions (0, c) of
        (Inl exc, (attempt_counter, c'), tr) \<Rightarrow> (Some exc, db, c', attempt_counter, tr)
      | (Inr raw, (attempt_counter, c'), tr) \<Rightarrow>
          (case validate_ai_response (svc_lib svc) raw of
             Inl exc \<Rightarrow> (Some exc, db, c', attempt_counter, tr)
           | Inr validated \<Rightarrow>
               (case add_clauses (analysis_id (analyses db ! ref)) (clauses validated) db of
                  (Some exc, db') \<Rightarrow> (Some exc, db', c', attempt_counter, tr)
                | (None, db') \<Rightarrow>
                    (None,
                     set_analysis ref
                       (\<lambda>a. a\<lparr>status := COMPLETED, completed_at := Some (svc_now svc 1)\<rparr>) db',
                     c', attempt_counter, tr))))"

text \<open>The \<^verbatim>\<open>except\<close> clauses in their order. Every class of the model derives from
  \<^verbatim>\<open>Exception\<close>, so the last clause takes whatever reaches it.\<close>

definition except_clauses :: "exn \<Rightarrow> nat \<Rightarrow> db_session \<Rightarrow> db_session" where
  "except_clauses exc ref db =
     (if isinstance exc AITimeoutError then
        set_analysis ref (\<lambda>a. a\<lparr>status := TIMED_OUT, error_message := Some (message exc)\<rparr>) db
      else if isinstance exc AIResponseValidationError then
        set_analysis ref (\<lambda>a. a\<lparr>status := FAILED, error_message := Some (message exc)\<rparr>) db
      else
        set_analysis ref (\<lambda>a. a\<lparr>status := FAILED, error_message := Some (message exc)\<rparr>) db)"

text \<open>The \<^verbatim>\<open>finally\<close> clause: the exception of the commit, if it raises, and the
  session.\<close>

definition finally_clause :: "int \<Rightarrow> nat \<Rightarrow> db_session \<Rightarrow> exn option \<times> db_session" where
  "finally_clause attempt_counter ref db =
     (let db' = set_analysis ref (\<lambda>a. a\<lparr>retry_count := max (attempt_counter - 1) 0\<rparr>) db
      in case db_commit db' of
           Inl exc \<Rightarrow> (Some exc, db')
         | Inr db'' \<Rightarrow> (None, db''))"

text \<open>The constructor call \<^verbatim>\<open>Analysis(document_id=document.id, ...)\<close>; the document
  was selected by its key, and \<^verbatim>\<open>template.id\<close> is likewise the key looked up.\<close>

definition new_analysis ::
  "'c AnalysisService \<Rightarrow> uuid \<Rightarrow> Document \<Rightarrow> uuid option \<Rightarrow> AnalysisTemplate option
     \<Rightarrow> string \<Rightarrow> string \<Rightarrow> Analysis" where
  "new_analysis svc document_id document template_id template model_provider model_name =
     \<lparr>analysis_id = None,
      analysis_document_id = document_id,
      analysis_tenant_id = doc_tenant_id document,
      analysis_template_id = (if template \<noteq> None then template_id else None),
      status = PROCESSING,
      analysis_model_provider = model_provider,
      analysis_model_name = model_name,
      started_at = Some (svc_now svc 0),
      completed_at = None,
      error_message = None,
      retry_count = 0\<rparr>"

definition fetch_template :: "db_session \<Rightarrow> uuid option \<Rightarrow> uuid \<Rightarrow> AnalysisTemplate option" where
  "fetch_template db template_id tenant_id =
     (case template_id of
        None \<Rightarrow> None
      | Some t \<Rightarrow> select_template db t tenant_id)"

text \<open>
  \<^verbatim>\<open>analyze_document\<close>. The two precondition failures are raised before anything is
  added. The new Analysis is added and flushed before the \<^verbatim>\<open>try\<close> statement, so an
  exception of the flush leaves the function. The exceptions of the \<^verbatim>\<open>try\<close> body are
  handled by the \<^verbatim>\<open>except\<close> clauses; the commit of the \<^verbatim>\<open>finally\<close> clause and the
  refresh after it are awaited outside any handler, so their exceptions leave the function
  too.
\<close>

definition analyze_document ::
  "'c AnalysisService \<Rightarrow> uuid \<Rightarrow> uuid \<Rightarrow> uuid option \<Rightarrow> string \<Rightarrow> string
     \<Rightarrow> db_session \<Rightarrow> 'c \<Rightarrow> (exn + Analysis) \<times> db_session \<times> 'c \<times> effect list" where
  "analyze_document svc document_id tenant_id template_id model_provider model_name db c =
     (case select_document db document_id tenant_id of
        None \<Rightarrow>
          (Inl (Exc DocumentNotFoundError
                  (''Document '' @ document_id @ '' not found for tenant '' @ tenant_id) None),
           db, c, [])
      | Some document \<Rightarrow>
          (case extracted_text document of
             None \<Rightarrow>
               (Inl (Exc EmptyDocumentError
                       (''Document '' @ document_id @ '' has no extracted text'') None),
                db, c, [])
           | Some document_text \<Rightarrow>
               if document_text = [] then
                 (Inl (Exc EmptyDocumentError
                         (''Document '' @ document_id @ '' has no extracted text'') None),
                  db, c, [])
               else
                 (let template = fetch_template db template_id tenant_id;
                      analysis = new_analysis svc document_id document template_id template
                                   model_provider model_name;
                      ref = length (analyses db);
                      db0 = db_add_analysis analysis db
                  in case db_flush ref db0 of
                       Inl exc \<Rightarrow> (Inl exc, db0, c, [])
                     | Inr db1 \<Rightarrow>
                         (let (raised, db2, c', attempt_counter, tr) =
                                try_body svc document_text template model_name ref db1 c;
                              db3 = (case raised of
                                       None \<Rightarrow> db2
                                     | Some exc \<Rightarrow> except_clauses exc ref db2)
                          in case finally_clause attempt_counter ref db3 of
                               (Some exc, db4) \<Rightarrow> (Inl exc, db4, c', tr)
                             | (None, db4) \<Rightarrow>
                                 (case db_refresh ref db4 of
                                    Inl exc \<Rightarrow> (Inl exc, db4, c', tr)
                                  | Inr analysis \<Rightarrow> (Inr analysis, db4, c', tr))))))"

section \<open>Job worker (src/workers/worker.py)\<close>

record job =
  job_document_id :: uuid
  job_tenant_id :: uuid
  job_message_id :: string

text \<open>
  What the worker does to its collaborators, in order: the Redis \<^verbatim>\<open>SET NX\<close> of the
  dedup key, taking and releasing the document lock, the call of the orchestrator, deleting
  the dedup key, and the queue's \<^verbatim>\<open>requeue\<close> (with its delay) and \<^verbatim>\<open>ack\<close>.
\<close>

datatype worker_event =
    RedisSetNX string
  | LockAcquired string
  | Analyze uuid uuid
  | LockReleased string
  | RedisDelete string
  | QueueRequeue job nat
  | QueueAck job

text \<open>
  The worker's world: the keys present in Redis, the locks held by other workers, the
  database and the provider client's world. Expiry of keys and locks is not modelled, and
  the queue and Redis calls themselves do not fail.
\<close>

record 'c worker_state =
  redis_keys :: "string set"
  other_locks :: "string set"
  worker_db :: db_session
  worker_client :: 'c

text \<open>
  The body of the \<^verbatim>\<open>try\<close> statement: entering \<^verbatim>\<open>self._redis.lock(lock_key)\<close> raises
  \<^verbatim>\<open>LockAcquisitionError\<close> when another worker holds the lock. Otherwise, under the
  lock, the worker builds a service from \<^verbatim>\<open>self._service.ai_client\<close> and runs the
  orchestrator with the defaults of its signature; the lock is released on the way out,
  also when an exception passes. The attribute lookup is the worker's parameter:
  \<open>None\<close> stands for the \<^verbatim>\<open>AttributeError\<close> it raises for an object without that
  attribute, as the repository's own \<^verbatim>\<open>AnalysisService\<close> (which keeps its client as
  \<^verbatim>\<open>_ai\<close>) and the client that \<^verbatim>\<open>main\<close> passes; \<open>Some svc\<close> is the service built
  from the attribute's value.
\<close>

definition locked_analysis ::
  "'c AnalysisService option \<Rightarrow> job \<Rightarrow> 'c worker_state
     \<Rightarrow> exn option \<times> 'c worker_state \<times> worker_event list" where
  "locked_analysis service_ai_client j st =
     (let lock_key = ''analysis:lock:'' @ job_document_id j in
      if lock_key \<in> other_locks st then
        (Some (Exc LockAcquisitionError lock_key None), st, [])
      else
        (case service_ai_client of
           None \<Rightarrow>
             (Some (Exc AttributeError ''object has no attribute ai_client'' None), st,
              [LockAcquired lock_key, LockReleased lock_key])
         | Some svc \<Rightarrow>
             (case analyze_document svc (job_document_id j) (job_tenant_id j) None
                     ''anthropic'' ''claude-sonnet-4-5-20250514''
                     (worker_db st) (worker_client st) of
                (r, db', c', tr) \<Rightarrow>
                  ((case r of Inl exc \<Rightarrow> Some exc | Inr analysis \<Rightarrow> None),
                   st\<lparr>worker_db := db', worker_client := c'\<rparr>,
                   [LockAcquired lock_key, Analyze (job_document_id j) (job_tenant_id j),
                    LockReleased lock_key]))))"

text \<open>
  \<^verbatim>\<open>_process_job\<close>. A duplicate message is acknowledged and skipped before the
  \<^verbatim>\<open>try\<close> statement. Inside it, the \<^verbatim>\<open>except LockAcquisitionError\<close> clause re-queues
  and returns, the \<^verbatim>\<open>except Exception\<close> clause deletes the dedup key, and the
  \<^verbatim>\<open>finally\<close> clause acknowledges: Python runs a \<^verbatim>\<open>finally\<close> clause on every way out
  of its \<^verbatim>\<open>try\<close> statement, a \<^verbatim>\<open>return\<close> in an \<^verbatim>\<open>except\<close> clause included.
\<close>

definition process_job ::
  "'c AnalysisService option \<Rightarrow> job \<Rightarrow> 'c worker_state
     \<Rightarrow> 'c worker_state \<times> worker_event list" where
  "process_job service_ai_client j st =
     (let dedup_key = ''analysis:processed:'' @ job_message_id j in
      if dedup_key \<in> redis_keys st then
        (st, [RedisSetNX dedup_key, QueueAck j])
      else
        (let st1 = st\<lparr>redis_keys := insert dedup_key (redis_keys st)\<rparr>;
             (raised, st2, try_events) = locked_analysis service_ai_client j st1;
             (st3, except_events) =
               (case raised of
                  None \<Rightarrow> (st2, [])
                | Some exc \<Rightarrow>
                    if isinstance exc LockAcquisitionError then (st2, [QueueRequeue j 30])
                    else (st2\<lparr>redis_keys := redis_keys st2 - {dedup_key}\<rparr>,
                          [RedisDelete dedup_key]));
             finally_events = [QueueAck j]
         in (st3, [RedisSetNX dedup_key] @ try_events @ except_events @ finally_events)))"

section \<open>Predicates on extraction payloads\<close>

text \<open>
  The conditions on a clause entry (the items of a decoded JSON object) that the
  properties below speak of, read through the library's field validators: the confidence
  score is not in the closed interval from 0 to 1; the clause type or the risk level is a
  string outside its enumeration; one of the three text fields is the empty string.
\<close>

definition confidence_out_of_range :: "pylib \<Rightarrow> (string \<times> json) list \<Rightarrow> bool" where
  "confidence_out_of_range L entry =
     (case required_field entry ''confidence_score'' (pyd_float L) of
        Some x \<Rightarrow> \<not> (float_ge x 0 \<and> float_le x 1)
      | None \<Rightarrow> False)"

definition clause_type_outside_enum :: "pylib \<Rightarrow> (string \<times> json) list \<Rightarrow> bool" where
  "clause_type_outside_enum L entry =
     (case required_field entry ''clause_type'' (pyd_str L) of
        Some v \<Rightarrow> ClauseType_of v = None
      | None \<Rightarrow> False)"

definition risk_level_outside_enum :: "pylib \<Rightarrow> (string \<times> json) list \<Rightarrow> bool" where
  "risk_level_outside_enum L entry =
     (case required_field entry ''risk_level'' (pyd_str L) of
        Some v \<Rightarrow> RiskLevel_of v = None
      | None \<Rightarrow> False)"

definition empty_text_field :: "pylib \<Rightarrow> (string \<times> json) list \<Rightarrow> bool" where
  "empty_text_field L entry =
     list_ex (\<lambda>name. required_field entry name (pyd_str L) = Some [])
       [''title'', ''summary'', ''original_text'']"

definition violates_clause_constraint :: "pylib \<Rightarrow> (string \<times> json) list \<Rightarrow> bool" where
  "violates_clause_constraint L entry =
     (confidence_out_of_range L entry \<or> clause_type_outside_enum L entry
      \<or> risk_level_outside_enum L entry \<or> empty_text_field L entry)"

text \<open>A clause entry that satisfies every field constraint of the schema.\<close>

definition satisfies_clause_constraints :: "pylib \<Rightarrow> json \<Rightarrow> bool" where
  "satisfies_clause_constraints L data =
     (case data of
        JObj entry \<Rightarrow>
          (case required_field entry ''clause_type'' (pyd_str L) of
             Some v \<Rightarrow> ClauseType_of v \<noteq> None | None \<Rightarrow> False)
          \<and> (case required_field entry ''risk_level'' (pyd_str L) of
             Some v \<Rightarrow> RiskLevel_of v \<noteq> None | None \<Rightarrow> False)
          \<and> list_all (\<lambda>name. case required_field entry name (pyd_str L) of
                                 Some v \<Rightarrow> v \<noteq> [] | None \<Rightarrow> False)
               [''title'', ''summary'', ''original_text'']
          \<and> optional_field entry ''page_number'' (pyd_int L) \<noteq> None
          \<and> (case required_field entry ''confidence_score'' (pyd_float L) of
                Some x \<Rightarrow> float_ge x 0 \<and> float_le x 1 | None \<Rightarrow> False)
      | _ \<Rightarrow> False)"

subsection \<open>Fenced texts and the decoder's treatment of whitespace\<close>

text \<open>A text wrapped in a markdown code fence, as the test suite writes it: the opening
  fence with a language tag, a line feed, the text, a line feed, the closing fence.\<close>

definition fenced :: "string \<Rightarrow> string \<Rightarrow> string" where
  "fenced tag J = fence @ tag @ [CHR 0x0A] @ J @ [CHR 0x0A] @ fence"

text \<open>A language tag is a word without whitespace or opening brace, possibly empty. The
  opening pattern of the validator consumes the tag \<^verbatim>\<open>json\<close> only: \<open>residual_tag\<close>
  is what it leaves of a tag.\<close>

definition language_tag :: "string \<Rightarrow> bool" where
  "language_tag tag = list_all (\<lambda>c. \<not> py_isspace c \<and> c \<noteq> CHR ''{'') tag"

definition residual_tag :: "string \<Rightarrow> string" where
  "residual_tag tag = (if startswith tag ''json'' then drop 4 tag else tag)"

text \<open>The shape of a JSON object text: between JSON whitespace, a text from an opening
  brace to a closing brace.\<close>

definition json_object_text :: "string \<Rightarrow> bool" where
  "json_object_text J =
     (let core = json_strip J
      in core \<noteq> [] \<and> hd core = CHR ''{'' \<and> last core = CHR ''}'')"

text \<open>The property of \<^verbatim>\<open>json.loads\<close> that fence stripping relies on: JSON whitespace
  before and after a text does not change what it decodes to.\<close>

definition ignores_json_whitespace :: "pylib \<Rightarrow> bool" where
  "ignores_json_whitespace L =
     (\<forall>l s r. list_all json_ws l \<and> list_all json_ws r \<longrightarrow>
        json_loads L (l @ s @ r) = json_loads L s)"

subsection \<open>Example payloads\<close>

text \<open>A payload in the shape of the test suite's, with one clause: the JSON text, for a
  given \<^verbatim>\<open>is_contract\<close> literal and confidence literal, and the value it decodes to.\<close>

definition example_text :: "string \<Rightarrow> string \<Rightarrow> string" where
  \<open>example_text flag score =
     ''{"is_contract": '' @ flag @ '', "language": "English", "clauses": [''
     @ ''{"clause_type": "LIABILITY", "risk_level": "HIGH", "title": "Cap", ''
     @ ''"summary": "Liability is capped.", "original_text": "Fees paid are the limit.", ''
     @ ''"page_number": 1, "confidence_score": '' @ score @ ''}], ''
     @ ''"metadata": {"contract_type": "Test", "parties_involved": ["A"], ''
     @ ''"effective_date": null, "total_clauses_found": 1}}''\<close>

definition example_clause :: "real \<Rightarrow> (string \<times> json) list" where
  "example_clause score =
     [(''clause_type'', JStr ''LIABILITY''), (''risk_level'', JStr ''HIGH''),
      (''title'', JStr ''Cap''), (''summary'', JStr ''Liability is capped.''),
      (''original_text'', JStr ''Fees paid are the limit.''),
      (''page_number'', JInt 1), (''confidence_score'', JFloat (Finite score))]"

definition example_data :: "bool \<Rightarrow> real \<Rightarrow> (string \<times> json) list" where
  "example_data flag score =
     [(''is_contract'', JBool flag), (''language'', JStr ''English''),
      (''clauses'', JArr [JObj (example_clause score)]),
      (''metadata'', JObj [(''contract_type'', JStr ''Test''),
                          (''parties_involved'', JArr [JStr ''A'']),
                          (''effective_date'', JNull),
                          (''total_clauses_found'', JInt 1)])]"

definition example_pylib :: pylib where
  "example_pylib = table_pylib
     [(example_text ''true'' ''0.9'', JObj (example_data True 0.9)),
      (example_text ''false'' ''0.9'', JObj (example_data False 0.9)),
      (example_text ''true'' ''1.5'', JObj (example_data True 1.5))]"

text \<open>The unfinished text \<^verbatim>\<open>MALFORMED_JSON\<close> of tests/conftest.py.\<close>

definition MALFORMED_JSON :: string where
  \<open>MALFORMED_JSON = ''{"clauses": [{"clause_type": "AUTO_RENEWAL"''\<close>

subsection \<open>An example service and session\<close>

text \<open>The service of the test suite: the scripted client, the example library, a clock.
  The session knows one document with text and one without, both of tenant 1, and its
  connection does not fail.\<close>

definition example_service :: "MockAIClient AnalysisService" where
  "example_service =
     \<lparr>svc_ai = MockAIClient_complete, svc_lib = example_pylib,
      svc_system_prompt = ''You are a legal document analysis assistant.'',
      svc_now = (\<lambda>n. 1000 + n)\<rparr>"

definition example_db :: db_session where
  "example_db =
     \<lparr>documents =
        [''doc-1'' \<mapsto> \<lparr>doc_tenant_id = ''tenant-1'', extracted_text = Some ''Some contract text''\<rparr>,
         ''doc-2'' \<mapsto> \<lparr>doc_tenant_id = ''tenant-1'', extracted_text = Some []\<rparr>],
      templates = Map.empty, analyses = [], clause_rows = [], commits = 0,
      fresh_ids = (\<lambda>n. ''analysis-'' @ replicate (Suc n) (CHR ''i'')),
      db_fault = (\<lambda>op. None)\<rparr>"

text \<open>The same service over Variant A of the client and the scripted transport, and an
  HTTP response with a given status whose body has no completion.\<close>

definition example_anthropic_service :: "((exn + http_response) list) AnalysisService" where
  "example_anthropic_service =
     \<lparr>svc_ai = AnthropicClient_complete scripted_transport, svc_lib = example_pylib,
      svc_system_prompt = ''You are a legal document analysis assistant.'',
      svc_now = (\<lambda>n. 1000 + n)\<rparr>"

definition error_response :: "nat \<Rightarrow> string \<Rightarrow> http_response" where
  "error_response code reason =
     \<lparr>status_code = code, status_error = reason,
      completion_text = Inl (Exc KeyError ''content'' None)\<rparr>"

text \<open>A job for the first example document, and a worker state in which another worker
  holds the lock of that document.\<close>

definition example_job :: job where
  "example_job =
     \<lparr>job_document_id = ''doc-1'', job_tenant_id = ''tenant-1'', job_message_id = ''msg-1''\<rparr>"

definition contended_state :: "MockAIClient worker_state" where
  "contended_state =
     \<lparr>redis_keys = {}, other_locks = {''analysis:lock:doc-1''}, worker_db = example_db,
      worker_client = \<lparr>responses = [Inr (example_text ''true'' ''0.9'')], call_count = 0\<rparr>\<rparr>"

text \<open>A payload that the validator accepts and whose clause the database refuses: the
  clause's page number, 2147483648, is beyond a 32-bit \<^verbatim>\<open>Integer\<close> column.\<close>

definition oversized_text :: string where
  \<open>oversized_text =
     ''{"is_contract": true, "language": "English", "clauses": [''
     @ ''{"clause_type": "LIABILITY", "risk_level": "HIGH", "title": "Cap", ''
     @ ''"summary": "Liability is capped.", "original_text": "Fees paid are the limit.", ''
     @ ''"page_number": 2147483648, "confidence_score": 0.9}], ''
     @ ''"metadata": {"contract_type": "Test", "parties_involved": ["A"], ''
     @ ''"effective_date": null, "total_clauses_found": 1}}''\<close>

definition oversized_data :: "(string \<times> json) list" where
  "oversized_data =
     [(''is_contract'', JBool True), (''language'', JStr ''English''),
      (''clauses'',
       JArr [JObj [(''clause_type'', JStr ''LIABILITY''), (''risk_level'', JStr ''HIGH''),
                   (''title'', JStr ''Cap''), (''summary'', JStr ''Liability is capped.''),
                   (''original_text'', JStr ''Fees paid are the limit.''),
                   (''page_number'', JInt 2147483648),
                   (''confidence_score'', JFloat (Finite 0.9))]]),
      (''metadata'', JObj [(''contract_type'', JStr ''Test''),
                          (''parties_involved'', JArr [JStr ''A'']),
                          (''effective_date'', JNull),
                          (''total_clauses_found'', JInt 1)])]"

definition oversized_service :: "MockAIClient AnalysisService" where
  "oversized_service =
     \<lparr>svc_ai = MockAIClient_complete,
      svc_lib = table_pylib [(oversized_text, JObj oversized_data)],
      svc_system_prompt = ''You are a legal document analysis assistant.'',
      svc_now = (\<lambda>n. 1000 + n)\<rparr>"


section \<open>Properties of the retry policy\<close>

lemma nth_outcome_0: "nth_outcome func s 0 = fst (func s)"
  by (simp add: nth_outcome_def)

lemma nth_outcome_Suc: "nth_outcome func s (Suc n) = nth_outcome func (snd (func s)) n"
  by (simp add: nth_outcome_def)

lemma retry_loop_success:
  "k < length attempts \<Longrightarrow>
   (\<forall>i<k. retryable_failure rs (nth_outcome func s i)) \<Longrightarrow>
   nth_outcome func s k = Inr v \<Longrightarrow>
   retry_loop func bd rs attempts lst s =
     (Inr v, after_calls func s (Suc k), retry_trace bd (take k attempts) @ [Call])"
proof (induction attempts arbitrary: k s lst)
  case Nil
  then show ?case by simp
next
  case (Cons a rest)
  show ?case
  proof (cases k)
    case 0
    with Cons.prems(3) show ?thesis
      by (cases "func s") (simp add: nth_outcome_0 retry_trace_def)
  next
    case (Suc j)
    from Cons.prems(2) Suc have "retryable_failure rs (nth_outcome func s 0)" by simp
    then obtain e s' where fs: "func s = (Inl e, s')" and ce: "catches rs e"
      by (cases "func s") (auto simp: nth_outcome_0 retryable_failure_def split: sum.splits)
    have j: "j < length rest" using Cons.prems(1) Suc by simp
    have fl: "\<forall>i<j. retryable_failure rs (nth_outcome func s' i)"
      using Cons.prems(2) Suc fs by (auto simp: nth_outcome_Suc dest: spec [where x = "Suc i" for i])
    have ok: "nth_outcome func s' j = Inr v"
      using Cons.prems(3) Suc fs by (simp add: nth_outcome_Suc)
    from Cons.IH [OF j fl ok, of "Some e"] fs ce Suc show ?thesis
      by (simp add: retry_trace_def)
  qed
qed

lemma retry_loop_exhausted:
  "(\<forall>i<length attempts. retryable_failure rs (nth_outcome func s i)) \<Longrightarrow>
   retry_loop func bd rs attempts lst s =
     ((if attempts = [] then
         (case lst of None \<Rightarrow> Inl (Exc TypeError ''exceptions must derive from BaseException'' None)
                     | Some exc \<Rightarrow> Inl exc)
       else nth_outcome func s (length attempts - 1)),
      after_calls func s (length attempts), retry_trace bd attempts)"
proof (induction attempts arbitrary: s lst)
  case Nil
  then show ?case by (simp add: retry_trace_def split: option.splits)
next
  case (Cons a rest)
  from Cons.prems have "retryable_failure rs (nth_outcome func s 0)" by simp
  then obtain e s' where fs: "func s = (Inl e, s')" and ce: "catches rs e"
    by (cases "func s") (auto simp: nth_outcome_0 retryable_failure_def split: sum.splits)
  have fl: "\<forall>i<length rest. retryable_failure rs (nth_outcome func s' i)"
    using Cons.prems fs by (auto simp: nth_outcome_Suc dest: spec [where x = "Suc i" for i])
  show ?case
  proof (cases rest)
    case Nil
    with fs ce show ?thesis by (simp add: retry_trace_def nth_outcome_0)
  next
    case (Cons b rest')
    with Cons.IH [OF fl, of "Some e"] fs ce show ?thesis
      by (simp add: retry_trace_def nth_outcome_Suc)
  qed
qed

lemma calls_retry_trace: "calls (retry_trace bd as @ tr) = length as + calls tr"
  by (induction as) (simp_all add: retry_trace_def calls_def)

lemma sleeps_retry_trace: "sleeps (retry_trace bd as @ tr) = map (\<lambda>a. bd * 2 ^ a) as @ sleeps tr"
  by (induction as) (simp_all add: retry_trace_def sleeps_def)

text \<open>
  Claim C3. A callable that fails with a retryable exception exactly \<open>k\<close> times and
  then succeeds, with \<open>k < max_retries\<close>: the wrapper returns the success value and has
  invoked the callable exactly \<open>k + 1\<close> times (sleeping \<open>base_delay * 2 ^ i\<close> after the
  \<open>i\<close>-th failure). A callable whose first \<open>max_retries\<close> invocations all fail with
  retryable exceptions (\<open>max_retries\<close> at least 1): the wrapper invokes it exactly
  \<open>max_retries\<close> times and raises the exception of the last invocation itself, a
  retryable one, with no dedicated kind for exhaustion.
\<close>

theorem retry_returns_after_k_failures_or_reraises_last:
  "(k < nat max_retries \<and> (\<forall>i<k. retryable_failure rs (nth_outcome func s i))
      \<and> nth_outcome func s k = Inr v
    \<longrightarrow> (case retry_with_backoff func max_retries bd rs s of (r, s', tr) \<Rightarrow>
           r = Inr v \<and> calls tr = k + 1 \<and> s' = after_calls func s (k + 1)
           \<and> sleeps tr = map (\<lambda>a. bd * 2 ^ a) [0..<k]))
   \<and> (0 < max_retries \<and> (\<forall>i<nat max_retries. retryable_failure rs (nth_outcome func2 s2 i))
    \<longrightarrow> (case retry_with_backoff func2 max_retries bd rs s2 of (r, s', tr) \<Rightarrow>
           r = nth_outcome func2 s2 (nat max_retries - 1) \<and> retryable_failure rs r
           \<and> calls tr = nat max_retries \<and> s' = after_calls func2 s2 (nat max_retries)))"
proof (intro conjI impI)
  assume h: "k < nat max_retries \<and> (\<forall>i<k. retryable_failure rs (nth_outcome func s i))
      \<and> nth_outcome func s k = Inr v"
  then have "k < length [0..<nat max_retries]" by simp
  from retry_loop_success [OF this, of rs func s v bd None] h
  show "case retry_with_backoff func max_retries bd rs s of (r, s', tr) \<Rightarrow>
           r = Inr v \<and> calls tr = k + 1 \<and> s' = after_calls func s (k + 1)
           \<and> sleeps tr = map (\<lambda>a. bd * 2 ^ a) [0..<k]"
    using calls_retry_trace [of bd "[0..<k]" "[Call]"] sleeps_retry_trace [of bd "[0..<k]" "[Call]"]
    by (simp add: retry_with_backoff_def take_upt calls_def [of "[Call]"] sleeps_def [of "[Call]"]
          del: upt_Suc)
next
  assume h: "0 < max_retries \<and> (\<forall>i<nat max_retries. retryable_failure rs (nth_outcome func2 s2 i))"
  then have a: "\<forall>i<length [0..<nat max_retries]. retryable_failure rs (nth_outcome func2 s2 i)"
    by simp
  have ne: "[0..<nat max_retries] \<noteq> []" using h by simp
  have l: "retryable_failure rs (nth_outcome func2 s2 (nat max_retries - 1))" using h by simp
  from retry_loop_exhausted [OF a, of bd None] ne l
  show "case retry_with_backoff func2 max_retries bd rs s2 of (r, s', tr) \<Rightarrow>
           r = nth_outcome func2 s2 (nat max_retries - 1) \<and> retryable_failure rs r
           \<and> calls tr = nat max_retries \<and> s' = after_calls func2 s2 (nat max_retries)"
    using calls_retry_trace [of bd "[0..<nat max_retries]" "[]"]
    by (simp add: retry_with_backoff_def calls_def del: upt_Suc)
qed

theorem retry_returns_after_k_failures_or_reraises_last_witness:
  "(case retry_with_backoff (MockAIClient_complete [] ''model'') 3 1 default_retryable_exceptions
          \<lparr>responses = [Inl (Exc AITimeoutError ''timeout 1'' None),
                        Inl (Exc AITimeoutError ''timeout 2'' None), Inr ''ok''],
           call_count = 0\<rparr>
    of (r, s', tr) \<Rightarrow> r = Inr ''ok'' \<and> calls tr = 3 \<and> call_count s' = 3 \<and> sleeps tr = [1, 2])
   \<and> (case retry_with_backoff (MockAIClient_complete [] ''model'') 3 1 default_retryable_exceptions
          \<lparr>responses = [Inl (Exc AITimeoutError ''timeout 1'' None),
                        Inl (Exc AITimeoutError ''timeout 2'' None),
                        Inl (Exc AITimeoutError ''timeout 3'' None),
                        Inl (Exc AITimeoutError ''timeout 4'' None)],
           call_count = 0\<rparr>
    of (r, s', tr) \<Rightarrow> r = Inl (Exc AITimeoutError ''timeout 3'' None) \<and> calls tr = 3
           \<and> call_count s' = 3)"
  using retry_returns_after_k_failures_or_reraises_last
    [of 2 3 default_retryable_exceptions "MockAIClient_complete [] ''model''"
        "\<lparr>responses = [Inl (Exc AITimeoutError ''timeout 1'' None),
                        Inl (Exc AITimeoutError ''timeout 2'' None), Inr ''ok''],
           call_count = 0\<rparr>" "''ok''" 1
        "MockAIClient_complete [] ''model''"
        "\<lparr>responses = [Inl (Exc AITimeoutError ''timeout 1'' None),
                        Inl (Exc AITimeoutError ''timeout 2'' None),
                        Inl (Exc AITimeoutError ''timeout 3'' None),
                        Inl (Exc AITimeoutError ''timeout 4'' None)],
           call_count = 0\<rparr>"]
  by (simp add: numeral_2_eq_2 numeral_3_eq_3 All_less_Suc nth_outcome_def retryable_failure_def
        catches_def isinstance_def default_retryable_exceptions_def MockAIClient_complete_def
        split: prod.splits)

text \<open>
  Claim C4. When the first invocation raises an exception outside the retryable classes,
  the wrapper raises that exception at once: its trace is the single call, with no sleep
  and no further attempt.
\<close>

theorem retry_propagates_non_retryable_at_once:
  "0 < max_retries \<Longrightarrow> func s = (Inl e, s') \<Longrightarrow> \<not> catches rs e \<Longrightarrow>
   retry_with_backoff func max_retries bd rs s = (Inl e, s', [Call])"
proof -
  assume m: "0 < max_retries" and f: "func s = (Inl e, s')" and n: "\<not> catches rs e"
  from m have "[0..<nat max_retries] = 0 # [Suc 0..<nat max_retries]"
    by (simp add: upt_conv_Cons)
  then obtain rest where "[0..<nat max_retries] = 0 # rest" ..
  with f n show ?thesis by (simp add: retry_with_backoff_def)
qed

theorem retry_propagates_non_retryable_at_once_witness:
  "retry_with_backoff (MockAIClient_complete [] ''model'') 3 1 default_retryable_exceptions
     \<lparr>responses = [Inl (Exc KeyError ''content'' None), Inr ''ok''], call_count = 0\<rparr>
   = (Inl (Exc KeyError ''content'' None), \<lparr>responses = [Inr ''ok''], call_count = 1\<rparr>, [Call])"
  using retry_propagates_non_retryable_at_once
    [of 3 "MockAIClient_complete [] ''model''"
        "\<lparr>responses = [Inl (Exc KeyError ''content'' None), Inr ''ok''], call_count = 0\<rparr>"
        "Exc KeyError ''content'' None" "\<lparr>responses = [Inr ''ok''], call_count = 1\<rparr>"
        default_retryable_exceptions 1]
  by (simp add: catches_def isinstance_def default_retryable_exceptions_def MockAIClient_complete_def)

section \<open>Properties of the Anthropic request body\<close>

lemma split_messages_eq:
  "split_messages msgs system non_system =
     ((case filter (\<lambda>m. role m = ''system'') msgs of
         [] \<Rightarrow> system | m # ms \<Rightarrow> content (last (m # ms))),
      non_system @ filter (\<lambda>m. role m \<noteq> ''system'') msgs)"
  by (induction msgs arbitrary: system non_system) (auto split: list.splits)

text \<open>
  Claim C6, as amended. The body's message list holds exactly the non-system messages, in
  order. The top-level system field is not a merge of the system messages: it is the
  content of the last system message alone, and the key is left out when there is no
  system message or when that content is empty.
\<close>

theorem anthropic_body_last_system_wins:
  "AnthropicClient_body msgs model =
     \<lparr>body_model = model, body_max_tokens = 4096,
      body_messages = filter (\<lambda>m. role m \<noteq> ''system'') msgs,
      body_system =
        (case filter (\<lambda>m. role m = ''system'') msgs of
           [] \<Rightarrow> None
         | m # ms \<Rightarrow> if content (last (m # ms)) \<noteq> [] then Some (content (last (m # ms))) else None)\<rparr>"
  by (simp add: AnthropicClient_body_def split_messages_eq split: list.splits)

text \<open>
  Claim C6 as stated fails: of two system messages only the second reaches the request;
  the body is the one obtained without the first system message.
\<close>

theorem anthropic_body_drops_earlier_system_counterexample:
  "AnthropicClient_body
     [\<lparr>role = ''system'', content = ''Answer in French.''\<rparr>,
      \<lparr>role = ''system'', content = ''Be brief.''\<rparr>,
      \<lparr>role = ''user'', content = ''Hello''\<rparr>] ''m''
   = \<lparr>body_model = ''m'', body_max_tokens = 4096,
      body_messages = [\<lparr>role = ''user'', content = ''Hello''\<rparr>],
      body_system = Some ''Be brief.''\<rparr>
   \<and> AnthropicClient_body
     [\<lparr>role = ''system'', content = ''Answer in French.''\<rparr>,
      \<lparr>role = ''system'', content = ''Be brief.''\<rparr>,
      \<lparr>role = ''user'', content = ''Hello''\<rparr>] ''m''
     = AnthropicClient_body
     [\<lparr>role = ''system'', content = ''Be brief.''\<rparr>,
      \<lparr>role = ''user'', content = ''Hello''\<rparr>] ''m''"
  by (simp add: AnthropicClient_body_def)

section \<open>Properties of the response validator\<close>

lemma those_map_Some:
  "those (map f xs) = Some ys \<Longrightarrow> length ys = length xs \<and> (\<forall>i<length xs. f (xs ! i) = Some (ys ! i))"
proof (induction xs arbitrary: ys)
  case Nil
  then show ?case by simp
next
  case (Cons x xs)
  then obtain y ys' where fx: "f x = Some y" and t: "those (map f xs) = Some ys'" and ys: "ys = y # ys'"
    by (auto split: option.splits)
  from Cons.IH [OF t] fx ys show ?case
    by (auto simp: nth_Cons split: nat.splits)
qed

lemma those_map_member:
  "those (map f xs) = Some ys \<Longrightarrow> x \<in> set xs \<Longrightarrow> \<exists>y. f x = Some y \<and> y \<in> set ys"
  by (induction xs arbitrary: ys) (auto split: option.splits)

lemma those_map_all:
  "(\<And>x. x \<in> set xs \<Longrightarrow> f x \<noteq> None) \<Longrightarrow> those (map f xs) = Some (map (\<lambda>x. the (f x)) xs)"
  by (induction xs) (auto split: option.splits)

lemma validate_ClauseExtraction_Some:
  assumes "validate_ClauseExtraction L data = Some c"
  shows "\<exists>obj. data = JObj obj
     \<and> required_field obj ''clause_type'' (pyd_str L) = Some (clause_type c)
     \<and> required_field obj ''risk_level'' (pyd_str L) = Some (risk_level c)
     \<and> required_field obj ''title'' (pyd_str L) = Some (title c)
     \<and> required_field obj ''summary'' (pyd_str L) = Some (summary c)
     \<and> required_field obj ''original_text'' (pyd_str L) = Some (original_text c)
     \<and> optional_field obj ''page_number'' (pyd_int L) = Some (page_number c)
     \<and> required_field obj ''confidence_score'' (pyd_float L) = Some (confidence_score c)
     \<and> clause_type c \<in> set VALID_CLAUSE_TYPES
     \<and> risk_level c \<in> set VALID_RISK_LEVELS
     \<and> title c \<noteq> [] \<and> summary c \<noteq> [] \<and> original_text c \<noteq> []
     \<and> float_ge (confidence_score c) 0 \<and> float_le (confidence_score c) 1"
proof -
  from assms obtain obj where d: "data = JObj obj"
    by (cases data) (simp_all add: validate_ClauseExtraction_def)
  from assms show ?thesis
    unfolding d validate_ClauseExtraction_def
    by (auto simp: check_def validate_clause_type_def validate_risk_level_def
        split: bind_splits if_splits)
qed

lemma ClauseType_of_None: "ClauseType_of v = None \<longleftrightarrow> v \<notin> set VALID_CLAUSE_TYPES"
  by (auto simp: ClauseType_of_def VALID_CLAUSE_TYPES_def find_None_iff)

lemma RiskLevel_of_None: "RiskLevel_of v = None \<longleftrightarrow> v \<notin> set VALID_RISK_LEVELS"
  by (auto simp: RiskLevel_of_def VALID_RISK_LEVELS_def find_None_iff)

lemma violating_clause_rejected:
  "violates_clause_constraint L entry \<Longrightarrow> validate_ClauseExtraction L (JObj entry) = None"
proof (rule ccontr)
  assume v: "violates_clause_constraint L entry"
  assume "validate_ClauseExtraction L (JObj entry) \<noteq> None"
  then obtain c where "validate_ClauseExtraction L (JObj entry) = Some c" by auto
  from validate_ClauseExtraction_Some [OF this] v show False
    by (auto simp: violates_clause_constraint_def confidence_out_of_range_def
        clause_type_outside_enum_def risk_level_outside_enum_def empty_text_field_def
        ClauseType_of_None RiskLevel_of_None)
qed

lemma satisfying_clause_accepted:
  "satisfies_clause_constraints L data \<Longrightarrow> validate_ClauseExtraction L data \<noteq> None"
  by (cases data)
     (auto simp: satisfies_clause_constraints_def validate_ClauseExtraction_def check_def
        validate_clause_type_def validate_risk_level_def ClauseType_of_None RiskLevel_of_None
        Suc_le_eq split: option.splits)

lemma model_validate_Some:
  assumes "model_validate L (JObj obj) = Some r"
  shows "required_field obj ''is_contract'' (pyd_bool L) = Some (is_contract r)
     \<and> required_field obj ''language'' (pyd_str L) = Some (language r)
     \<and> required_field obj ''clauses'' (validate_clause_list L) = Some (clauses r)
     \<and> required_field obj ''metadata'' (validate_ExtractionMetadata L) = Some (metadata r)
     \<and> (is_contract r \<or> clauses r = [])"
  using assms
  by (auto simp: model_validate_def check_clauses_consistent_with_contract_flag_def
      split: bind_splits if_splits)

lemma model_validate_complete:
  assumes "required_field obj ''is_contract'' (pyd_bool L) = Some ic"
    and "required_field obj ''language'' (pyd_str L) = Some la"
    and "required_field obj ''clauses'' (validate_clause_list L) = Some cl"
    and "required_field obj ''metadata'' (validate_ExtractionMetadata L) = Some md"
    and "ic \<or> cl = []"
  shows "model_validate L (JObj obj) =
           Some \<lparr>is_contract = ic, language = la, clauses = cl, metadata = md\<rparr>"
  using assms
  by (auto simp: model_validate_def check_clauses_consistent_with_contract_flag_def)

lemma clause_list_Some:
  assumes "map_of obj ''clauses'' = Some (JArr items)"
    and "required_field obj ''clauses'' (validate_clause_list L) = Some cl"
  shows "those (map (validate_ClauseExtraction L) items) = Some cl"
  using assms by (simp add: required_field_def validate_clause_list_def)

lemma validate_ai_response_schema_failure:
  assumes "parse_attempts L (strip_fences raw) = Some (JObj obj)"
    and "model_validate L (JObj obj) = None"
  shows "validate_ai_response L raw =
     Inl (Exc AIResponseValidationError
            (''AI response failed schema validation: '' @ pyd_error_str L (JObj obj)) (Some raw))"
  using assms by (simp add: validate_ai_response_def)

lemma validate_ai_response_success:
  assumes "parse_attempts L (strip_fences raw) = Some (JObj obj)"
    and "model_validate L (JObj obj) = Some r"
  shows "validate_ai_response L raw = Inr r"
  using assms by (simp add: validate_ai_response_def)

lemma dropWhile_hd: "s \<noteq> [] \<Longrightarrow> \<not> P (hd s) \<Longrightarrow> dropWhile P s = s"
  by (cases s) simp_all

lemma rev_dropWhile_last: "s \<noteq> [] \<Longrightarrow> \<not> P (last s) \<Longrightarrow> rev (dropWhile P (rev s)) = s"
  using dropWhile_hd [of "rev s" P] by (simp add: hd_rev)

lemma strip_unspaced:
  "s \<noteq> [] \<Longrightarrow> \<not> py_isspace (hd s) \<Longrightarrow> \<not> py_isspace (last s) \<Longrightarrow> strip s = s"
  by (simp add: strip_def lstrip_def rstrip_def dropWhile_hd rev_dropWhile_last)

lemma json_strip_unspaced:
  "s \<noteq> [] \<Longrightarrow> \<not> json_ws (hd s) \<Longrightarrow> \<not> json_ws (last s) \<Longrightarrow> json_strip s = s"
  by (simp add: json_strip_def dropWhile_hd rev_dropWhile_last)

lemma example_text_shape:
  "example_text flag score \<noteq> [] \<and> hd (example_text flag score) = CHR ''{''
   \<and> last (example_text flag score) = CHR ''}''"
  by (simp add: example_text_def)

lemma strip_fences_example: "strip_fences (example_text flag score) = example_text flag score"
proof -
  have "strip (example_text flag score) = example_text flag score"
    using example_text_shape [of flag score]
    by (intro strip_unspaced) (simp_all add: py_isspace_def)
  moreover have "\<not> startswith (example_text flag score) fence"
    by (simp add: startswith_def example_text_def fence_def)
  ultimately show ?thesis by (simp add: strip_fences_def)
qed

lemma json_strip_example: "json_strip (example_text flag score) = example_text flag score"
  using example_text_shape [of flag score]
  by (intro json_strip_unspaced) (simp_all add: json_ws_def)

lemma parse_example_False:
  "parse_attempts example_pylib (strip_fences (example_text ''false'' ''0.9''))
     = Some (JObj (example_data False 0.9))"
  apply (simp add: strip_fences_example parse_attempts_def example_pylib_def table_pylib_def
      json_strip_example)
  apply (simp add: example_text_def)
  done

lemma parse_example_True:
  "parse_attempts example_pylib (strip_fences (example_text ''true'' ''0.9''))
     = Some (JObj (example_data True 0.9))"
  apply (simp add: strip_fences_example parse_attempts_def example_pylib_def table_pylib_def
      json_strip_example)
  done

lemma parse_example_score:
  "parse_attempts example_pylib (strip_fences (example_text ''true'' ''1.5''))
     = Some (JObj (example_data True 1.5))"
  apply (simp add: strip_fences_example parse_attempts_def example_pylib_def table_pylib_def
      json_strip_example)
  apply (simp add: example_text_def)
  done

lemma example_pylib_simps:
  "pyd_bool example_pylib = native_bool" "pyd_str example_pylib = native_str"
  "pyd_int example_pylib = native_int" "pyd_float example_pylib = native_float"
  "pyd_error_str example_pylib data = ''validation error''"
  by (simp_all add: example_pylib_def table_pylib_def)

lemmas native_defs = native_bool_def native_str_def native_int_def native_float_def

text \<open>
  Claim C7. A payload whose \<^verbatim>\<open>is_contract\<close> is false and whose \<^verbatim>\<open>clauses\<close> array is
  not empty is rejected with the schema validation error, whatever the clause entries
  are; no result with the clauses removed is returned.
\<close>

theorem non_contract_with_clauses_rejected:
  assumes "parse_attempts L (strip_fences raw) = Some (JObj obj)"
    and "required_field obj ''is_contract'' (pyd_bool L) = Some False"
    and "map_of obj ''clauses'' = Some (JArr items)"
    and "items \<noteq> []"
  shows "validate_ai_response L raw =
     Inl (Exc AIResponseValidationError
            (''AI response failed schema validation: '' @ pyd_error_str L (JObj obj)) (Some raw))"
proof -
  have "model_validate L (JObj obj) = None"
  proof (rule ccontr)
    assume "model_validate L (JObj obj) \<noteq> None"
    then obtain r where r: "model_validate L (JObj obj) = Some r" by auto
    note m = model_validate_Some [OF r]
    from m assms(2) have nc: "\<not> is_contract r" by simp
    from m have "required_field obj ''clauses'' (validate_clause_list L) = Some (clauses r)"
      by simp
    from those_map_Some [OF clause_list_Some [OF assms(3) this]] assms(4)
    have "clauses r \<noteq> []" by auto
    with nc m show False by simp
  qed
  with assms(1) show ?thesis by (rule validate_ai_response_schema_failure)
qed

theorem non_contract_with_clauses_rejected_witness:
  "satisfies_clause_constraints example_pylib (JObj (example_clause 0.9))
   \<and> validate_ai_response example_pylib (example_text ''false'' ''0.9'') =
       Inl (Exc AIResponseValidationError
              ''AI response failed schema validation: validation error''
              (Some (example_text ''false'' ''0.9'')))"
  using non_contract_with_clauses_rejected
    [OF parse_example_False, of "[JObj (example_clause 0.9)]"]
  by (simp add: example_pylib_simps native_defs required_field_def optional_field_def
      example_data_def example_clause_def satisfies_clause_constraints_def
      ClauseType_of_def RiskLevel_of_def ClauseType_members_def RiskLevel_members_def)


text \<open>
  Claim C8. If some clause entry of the payload has a confidence score outside the closed
  interval from 0 to 1, a clause type outside the ten values of the enumeration, a risk
  level outside its four values, or an empty title, summary or original text, then the
  whole response fails with the schema validation error. A payload whose clause entries
  satisfy every field constraint passes the clause checks, one typed clause per entry, and
  the response is accepted when its other fields are valid too.
\<close>

theorem clause_constraints_enforced:
  "(parse_attempts L (strip_fences raw) = Some (JObj obj)
      \<and> map_of obj ''clauses'' = Some (JArr items)
      \<and> JObj entry \<in> set items
      \<and> violates_clause_constraint L entry
    \<longrightarrow> validate_ai_response L raw =
          Inl (Exc AIResponseValidationError
                 (''AI response failed schema validation: '' @ pyd_error_str L (JObj obj))
                 (Some raw)))
   \<and> (parse_attempts L (strip_fences raw2) = Some (JObj obj2)
      \<and> map_of obj2 ''clauses'' = Some (JArr items2)
      \<and> list_all (satisfies_clause_constraints L) items2
      \<and> required_field obj2 ''is_contract'' (pyd_bool L) = Some ic
      \<and> required_field obj2 ''language'' (pyd_str L) = Some la
      \<and> required_field obj2 ''metadata'' (validate_ExtractionMetadata L) = Some md
      \<and> (ic \<or> items2 = [])
    \<longrightarrow> (\<exists>cl. validate_clause_list L (JArr items2) = Some cl \<and> length cl = length items2
           \<and> validate_ai_response L raw2 =
               Inr \<lparr>is_contract = ic, language = la, clauses = cl, metadata = md\<rparr>))
   \<and> length VALID_CLAUSE_TYPES = 10 \<and> distinct VALID_CLAUSE_TYPES
   \<and> length VALID_RISK_LEVELS = 4 \<and> distinct VALID_RISK_LEVELS"
proof (intro conjI impI)
  assume h: "parse_attempts L (strip_fences raw) = Some (JObj obj)
      \<and> map_of obj ''clauses'' = Some (JArr items)
      \<and> JObj entry \<in> set items
      \<and> violates_clause_constraint L entry"
  have "model_validate L (JObj obj) = None"
  proof (rule ccontr)
    assume "model_validate L (JObj obj) \<noteq> None"
    then obtain r where r: "model_validate L (JObj obj) = Some r" by auto
    from model_validate_Some [OF r]
    have "required_field obj ''clauses'' (validate_clause_list L) = Some (clauses r)" by simp
    with h have "those (map (validate_ClauseExtraction L) items) = Some (clauses r)"
      by (simp add: required_field_def validate_clause_list_def)
    from those_map_member [OF this, of "JObj entry"] h
    have "validate_ClauseExtraction L (JObj entry) \<noteq> None" by auto
    with violating_clause_rejected [of L entry] h show False by simp
  qed
  with h show "validate_ai_response L raw =
          Inl (Exc AIResponseValidationError
                 (''AI response failed schema validation: '' @ pyd_error_str L (JObj obj))
                 (Some raw))"
    by (simp add: validate_ai_response_schema_failure)
next
  assume h: "parse_attempts L (strip_fences raw2) = Some (JObj obj2)
      \<and> map_of obj2 ''clauses'' = Some (JArr items2)
      \<and> list_all (satisfies_clause_constraints L) items2
      \<and> required_field obj2 ''is_contract'' (pyd_bool L) = Some ic
      \<and> required_field obj2 ''language'' (pyd_str L) = Some la
      \<and> required_field obj2 ''metadata'' (validate_ExtractionMetadata L) = Some md
      \<and> (ic \<or> items2 = [])"
  define cl where "cl = map (\<lambda>x. the (validate_ClauseExtraction L x)) items2"
  have "\<And>x. x \<in> set items2 \<Longrightarrow> validate_ClauseExtraction L x \<noteq> None"
    using h by (simp add: list_all_iff satisfying_clause_accepted)
  then have t: "those (map (validate_ClauseExtraction L) items2) = Some cl"
    unfolding cl_def by (rule those_map_all)
  then have vl: "validate_clause_list L (JArr items2) = Some cl"
    by (simp add: validate_clause_list_def)
  have len: "length cl = length items2" by (simp add: cl_def)
  from vl h have rc: "required_field obj2 ''clauses'' (validate_clause_list L) = Some cl"
    by (simp add: required_field_def)
  from h len have "ic \<or> cl = []" by auto
  with h rc have "model_validate L (JObj obj2) =
      Some \<lparr>is_contract = ic, language = la, clauses = cl, metadata = md\<rparr>"
    by (simp add: model_validate_complete)
  with h have "validate_ai_response L raw2 =
      Inr \<lparr>is_contract = ic, language = la, clauses = cl, metadata = md\<rparr>"
    by (simp add: validate_ai_response_success)
  with vl len show "\<exists>cl. validate_clause_list L (JArr items2) = Some cl \<and> length cl = length items2
           \<and> validate_ai_response L raw2 =
               Inr \<lparr>is_contract = ic, language = la, clauses = cl, metadata = md\<rparr>"
    by blast
qed (simp_all add: VALID_CLAUSE_TYPES_def VALID_RISK_LEVELS_def ClauseType_members_def
      RiskLevel_members_def)

theorem clause_constraints_enforced_witness:
  "validate_ai_response example_pylib (example_text ''true'' ''1.5'') =
       Inl (Exc AIResponseValidationError
              ''AI response failed schema validation: validation error''
              (Some (example_text ''true'' ''1.5'')))
   \<and> (\<exists>cl. length cl = 1 \<and>
        validate_ai_response example_pylib (example_text ''true'' ''0.9'') =
          Inr \<lparr>is_contract = True, language = ''English'', clauses = cl,
               metadata = \<lparr>contract_type = ''Test'', parties_involved = [''A''],
                           effective_date = None, total_clauses_found = 1\<rparr>\<rparr>)"
  using clause_constraints_enforced
    [of example_pylib "example_text ''true'' ''1.5''" "example_data True 1.5"
        "[JObj (example_clause 1.5)]" "example_clause 1.5"
        "example_text ''true'' ''0.9''" "example_data True 0.9"
        "[JObj (example_clause 0.9)]" True "''English''"
        "\<lparr>contract_type = ''Test'', parties_involved = [''A''],
          effective_date = None, total_clauses_found = 1\<rparr>"]
  by (simp add: parse_example_True parse_example_score
      example_pylib_simps native_defs required_field_def optional_field_def
      example_data_def example_clause_def satisfies_clause_constraints_def
      violates_clause_constraint_def confidence_out_of_range_def
      validate_ExtractionMetadata_def validate_str_list_def check_def
      ClauseType_of_def RiskLevel_of_def ClauseType_members_def RiskLevel_members_def)
     blast

section \<open>Properties of the orchestrator\<close>

lemma retry_loop_counter:
  "retry_loop (call_ai svc text tmpl mn) bd rs attempts lst (n, c) = (r, (n', c'), tr)
   \<Longrightarrow> n' = n + int (calls tr)"
proof (induction attempts arbitrary: n c lst r n' c' tr)
  case Nil
  then show ?case by (auto simp: calls_def split: option.splits)
next
  case (Cons a rest)
  obtain r0 c0 where ai: "svc_ai svc (build_extraction_prompt (svc_system_prompt svc) text tmpl) mn c = (r0, c0)"
    by (cases "svc_ai svc (build_extraction_prompt (svc_system_prompt svc) text tmpl) mn c")
  then have f: "call_ai svc text tmpl mn (n, c) = (r0, (n + 1, c0))"
    by (simp add: call_ai_def)
  show ?case
  proof (cases r0)
    case (Inr v)
    with Cons.prems f show ?thesis by (auto simp: calls_def)
  next
    case (Inl e)
    show ?thesis
    proof (cases "catches rs e")
      case False
      with Cons.prems f Inl show ?thesis by (auto simp: calls_def)
    next
      case True
      obtain r1 n1 c1 tr1 where rec:
        "retry_loop (call_ai svc text tmpl mn) bd rs rest (Some e) (n + 1, c0) = (r1, (n1, c1), tr1)"
        by (metis prod.exhaust)
      from Cons.IH [OF rec] have "n1 = n + 1 + int (calls tr1)" .
      with Cons.prems f Inl True rec show ?thesis by (auto simp: calls_def)
    qed
  qed
qed

lemma retry_loop_calls_le:
  "retry_loop func bd rs attempts lst s = (r, s', tr) \<Longrightarrow> calls tr \<le> length attempts"
proof (induction attempts arbitrary: lst s r s' tr)
  case Nil
  then show ?case by (auto simp: calls_def split: option.splits)
next
  case (Cons a rest)
  obtain r0 s0 where f: "func s = (r0, s0)" by (cases "func s")
  show ?case
  proof (cases r0)
    case (Inr v)
    with Cons.prems f show ?thesis by (auto simp: calls_def)
  next
    case (Inl e)
    show ?thesis
    proof (cases "catches rs e")
      case False
      with Cons.prems f Inl show ?thesis by (auto simp: calls_def)
    next
      case True
      obtain r1 s1 tr1 where rec: "retry_loop func bd rs rest (Some e) s0 = (r1, s1, tr1)"
        by (metis prod.exhaust)
      from Cons.IH [OF rec] Cons.prems f Inl True rec show ?thesis by (auto simp: calls_def)
    qed
  qed
qed

lemma retry_loop_calls_pos:
  "retry_loop func bd rs (a # rest) lst s = (r, s', tr) \<Longrightarrow> 1 \<le> calls tr"
  by (cases "func s") (auto simp: calls_def split: sum.splits if_splits prod.splits)

lemma retry_loop_retryable_result:
  "retry_loop func bd rs attempts lst s = (Inl exc, s', tr) \<Longrightarrow> catches rs exc \<Longrightarrow>
   lst \<noteq> None \<or> attempts \<noteq> [] \<Longrightarrow> calls tr = length attempts"
proof (induction attempts arbitrary: lst s s' tr)
  case Nil
  then show ?case by (auto simp: calls_def split: option.splits)
next
  case (Cons a rest)
  obtain r0 s0 where f: "func s = (r0, s0)" by (cases "func s")
  show ?case
  proof (cases r0)
    case (Inr v)
    with Cons.prems f show ?thesis by auto
  next
    case (Inl e)
    show ?thesis
    proof (cases "catches rs e")
      case False
      with Cons.prems f Inl show ?thesis by auto
    next
      case True
      obtain r1 s1 tr1 where rec: "retry_loop func bd rs rest (Some e) s0 = (r1, s1, tr1)"
        by (metis prod.exhaust)
      with Cons.prems f Inl True have r1: "r1 = Inl exc" and tr: "tr = Call # Sleep (bd * 2 ^ a) # tr1"
        by auto
      from Cons.IH [OF rec [unfolded r1] Cons.prems(2)] have "calls tr1 = length rest" by simp
      with tr show ?thesis by (simp add: calls_def)
    qed
  qed
qed

lemma validate_ai_response_Inl:
  "validate_ai_response L raw = Inl exc \<Longrightarrow>
   etype exc = AIResponseValidationError \<and> raw_response exc = Some raw"
  by (auto simp: validate_ai_response_def split: option.splits json.splits)

lemma validate_ai_response_Inr:
  "validate_ai_response L raw = Inr v \<Longrightarrow> \<exists>obj. model_validate L (JObj obj) = Some v"
  by (auto simp: validate_ai_response_def split: option.splits json.splits)

lemma validated_clauses_in_enums:
  assumes "validate_ai_response L raw = Inr v" and "cd \<in> set (clauses v)"
  shows "ClauseType_of (clause_type cd) \<noteq> None \<and> RiskLevel_of (risk_level cd) \<noteq> None"
proof -
  from validate_ai_response_Inr [OF assms(1)] obtain obj where
    mv: "model_validate L (JObj obj) = Some v" by blast
  from model_validate_Some [OF mv]
  have rf: "required_field obj ''clauses'' (validate_clause_list L) = Some (clauses v)" by simp
  then obtain items where t: "those (map (validate_ClauseExtraction L) items) = Some (clauses v)"
    by (auto simp: required_field_def validate_clause_list_def split: option.splits json.splits)
  from assms(2) obtain i where i: "i < length (clauses v)" and cd: "clauses v ! i = cd"
    by (auto simp: in_set_conv_nth)
  from those_map_Some [OF t] i cd have "validate_ClauseExtraction L (items ! i) = Some cd"
    by auto
  from validate_ClauseExtraction_Some [OF this] show ?thesis
    by (auto simp: ClauseType_of_None RiskLevel_of_None)
qed

lemma ClauseType_of_value: "ClauseType_of v = Some ct \<Longrightarrow> ClauseType_value ct = v"
  by (auto simp: ClauseType_of_def find_Some_iff)

lemma RiskLevel_of_value: "RiskLevel_of v = Some rl \<Longrightarrow> RiskLevel_value rl = v"
  by (auto simp: RiskLevel_of_def find_Some_iff)

lemma add_clauses_valid:
  "(\<And>cd. cd \<in> set cds \<Longrightarrow> ClauseType_of (clause_type cd) \<noteq> None \<and> RiskLevel_of (risk_level cd) \<noteq> None)
   \<Longrightarrow> add_clauses aid cds db =
     (None, db\<lparr>clause_rows := clause_rows db @
        map (\<lambda>cd. make_clause aid (the (ClauseType_of (clause_type cd)))
                     (the (RiskLevel_of (risk_level cd))) cd) cds\<rparr>)"
proof (induction cds arbitrary: db)
  case Nil
  then show ?case by simp
next
  case (Cons cd cds)
  from Cons.prems [of cd] obtain ct rl where
    "ClauseType_of (clause_type cd) = Some ct" "RiskLevel_of (risk_level cd) = Some rl" by auto
  moreover have "\<And>x. x \<in> set cds \<Longrightarrow>
      ClauseType_of (clause_type x) \<noteq> None \<and> RiskLevel_of (risk_level x) \<noteq> None"
    using Cons.prems by simp
  ultimately show ?case
    using Cons.IH [of "db_add_clause (make_clause aid ct rl cd) db"]
    by (simp add: db_add_clause_def)
qed

lemma commit_check_commits: "commit_check (db\<lparr>commits := k\<rparr>) = commit_check db"
  by (simp add: commit_check_def)

lemma commit_check_analyses: "commit_check (db\<lparr>analyses := as\<rparr>) = commit_check db"
  by (simp add: commit_check_def)

lemmas session_defs = set_analysis_def db_flush_def db_add_analysis_def db_commit_def
  db_refresh_def except_clauses_def finally_clause_def

lemma analyze_document_flush_failed:
  assumes "select_document db document_id tenant_id = Some document"
    and "extracted_text document = Some document_text" and "document_text \<noteq> []"
    and "flush_check (length (analyses db))
           (db_add_analysis
              (new_analysis svc document_id document template_id
                 (fetch_template db template_id tenant_id) model_provider model_name) db)
         = Some exc"
  shows "analyze_document svc document_id tenant_id template_id model_provider model_name db c =
     (Inl exc,
      db_add_analysis
        (new_analysis svc document_id document template_id
           (fetch_template db template_id tenant_id) model_provider model_name) db,
      c, [])"
  using assms by (simp add: analyze_document_def db_flush_def Let_def)

lemma analyze_document_call_failed:
  assumes "select_document db document_id tenant_id = Some document"
    and "extracted_text document = Some document_text" and "document_text \<noteq> []"
    and "flush_check (length (analyses db))
           (db_add_analysis
              (new_analysis svc document_id document template_id
                 (fetch_template db template_id tenant_id) model_provider model_name) db)
         = None"
    and "retry_with_backoff
           (call_ai svc document_text (fetch_template db template_id tenant_id) model_name)
           3 default_base_delay default_retryable_exceptions (0, c) = (Inl exc, (n, c1), tr)"
  shows "analyze_document svc document_id tenant_id template_id model_provider model_name db c =
     (let a = (new_analysis svc document_id document template_id
                 (fetch_template db template_id tenant_id) model_provider model_name)
               \<lparr>analysis_id := Some (fresh_ids db (length (analyses db))),
                status := (if isinstance exc AITimeoutError then TIMED_OUT else FAILED),
                error_message := Some (message exc),
                retry_count := max (n - 1) 0\<rparr>;
          held = db\<lparr>analyses := analyses db @ [a]\<rparr>
      in case commit_check held of
           Some e \<Rightarrow> (Inl e, held, c1, tr)
         | None \<Rightarrow>
             (case db_fault db Refresh of
                Some e \<Rightarrow> (Inl e, held\<lparr>commits := commits db + 1\<rparr>, c1, tr)
              | None \<Rightarrow> (Inr a, held\<lparr>commits := commits db + 1\<rparr>, c1, tr)))"
  using assms
  by (simp add: analyze_document_def try_body_def session_defs new_analysis_def Let_def
      split: option.splits)

lemma analyze_document_response_invalid:
  assumes "select_document db document_id tenant_id = Some document"
    and "extracted_text document = Some document_text" and "document_text \<noteq> []"
    and "flush_check (length (analyses db))
           (db_add_analysis
              (new_analysis svc document_id document template_id
                 (fetch_template db template_id tenant_id) model_provider model_name) db)
         = None"
    and "retry_with_backoff
           (call_ai svc document_text (fetch_template db template_id tenant_id) model_name)
           3 default_base_delay default_retryable_exceptions (0, c) = (Inr raw, (n, c1), tr)"
    and "validate_ai_response (svc_lib svc) raw = Inl exc"
  shows "analyze_document svc document_id tenant_id template_id model_provider model_name db c =
     (let a = (new_analysis svc document_id document template_id
                 (fetch_template db template_id tenant_id) model_provider model_name)
               \<lparr>analysis_id := Some (fresh_ids db (length (analyses db))),
                status := FAILED,
                error_message := Some (message exc),
                retry_count := max (n - 1) 0\<rparr>;
          held = db\<lparr>analyses := analyses db @ [a]\<rparr>
      in case commit_check held of
           Some e \<Rightarrow> (Inl e, held, c1, tr)
         | None \<Rightarrow>
             (case db_fault db Refresh of
                Some e \<Rightarrow> (Inl e, held\<lparr>commits := commits db + 1\<rparr>, c1, tr)
              | None \<Rightarrow> (Inr a, held\<lparr>commits := commits db + 1\<rparr>, c1, tr)))"
  using assms validate_ai_response_Inl [OF assms(6)]
  by (simp add: analyze_document_def try_body_def session_defs new_analysis_def Let_def
      isinstance_def split: option.splits)

lemma analyze_document_completed:
  assumes "select_document db document_id tenant_id = Some document"
    and "extracted_text document = Some document_text" and "document_text \<noteq> []"
    and "flush_check (length (analyses db))
           (db_add_analysis
              (new_analysis svc document_id document template_id
                 (fetch_template db template_id tenant_id) model_provider model_name) db)
         = None"
    and "retry_with_backoff
           (call_ai svc document_text (fetch_template db template_id tenant_id) model_name)
           3 default_base_delay default_retryable_exceptions (0, c) = (Inr raw, (n, c1), tr)"
    and "validate_ai_response (svc_lib svc) raw = Inr validated"
  shows "analyze_document svc document_id tenant_id template_id model_provider model_name db c =
     (let aid = Some (fresh_ids db (length (analyses db)));
          a = (new_analysis svc document_id document template_id
                 (fetch_template db template_id tenant_id) model_provider model_name)
               \<lparr>analysis_id := aid,
                status := COMPLETED,
                completed_at := Some (svc_now svc 1),
                retry_count := max (n - 1) 0\<rparr>;
          held = db\<lparr>clause_rows := clause_rows db @
                      map (\<lambda>cd. make_clause aid (the (ClauseType_of (clause_type cd)))
                                   (the (RiskLevel_of (risk_level cd))) cd) (clauses validated),
                    analyses := analyses db @ [a]\<rparr>
      in case commit_check held of
           Some e \<Rightarrow> (Inl e, held, c1, tr)
         | None \<Rightarrow>
             (case db_fault db Refresh of
                Some e \<Rightarrow> (Inl e, held\<lparr>commits := commits db + 1\<rparr>, c1, tr)
              | None \<Rightarrow> (Inr a, held\<lparr>commits := commits db + 1\<rparr>, c1, tr)))"
proof -
  have ac: "\<And>aid d. add_clauses aid (clauses validated) d =
     (None, d\<lparr>clause_rows := clause_rows d @
        map (\<lambda>cd. make_clause aid (the (ClauseType_of (clause_type cd)))
                     (the (RiskLevel_of (risk_level cd))) cd) (clauses validated)\<rparr>)"
    by (rule add_clauses_valid) (rule validated_clauses_in_enums [OF assms(6)])
  from assms show ?thesis
    by (simp add: analyze_document_def try_body_def session_defs new_analysis_def Let_def ac
        split: option.splits)
qed

lemma validate_example_accepted:
  "validate_ai_response example_pylib (example_text ''true'' ''0.9'') =
     Inr \<lparr>is_contract = True, language = ''English'',
          clauses = [\<lparr>clause_type = ''LIABILITY'', risk_level = ''HIGH'', title = ''Cap'',
                      summary = ''Liability is capped.'',
                      original_text = ''Fees paid are the limit.'',
                      page_number = Some 1, confidence_score = Finite 0.9\<rparr>],
          metadata = \<lparr>contract_type = ''Test'', parties_involved = [''A''],
                      effective_date = None, total_clauses_found = 1\<rparr>\<rparr>"
  by (simp add: validate_ai_response_def parse_example_True model_validate_def
      validate_clause_list_def validate_ClauseExtraction_def validate_ExtractionMetadata_def
      validate_str_list_def check_clauses_consistent_with_contract_flag_def
      validate_clause_type_def validate_risk_level_def VALID_CLAUSE_TYPES_def
      VALID_RISK_LEVELS_def ClauseType_members_def RiskLevel_members_def
      example_pylib_simps native_defs required_field_def optional_field_def check_def
      example_data_def example_clause_def)

lemma validate_example_rejected:
  "validate_ai_response example_pylib (example_text ''false'' ''0.9'') =
     Inl (Exc AIResponseValidationError
            ''AI response failed schema validation: validation error''
            (Some (example_text ''false'' ''0.9'')))"
  by (simp add: validate_ai_response_def parse_example_False model_validate_def
      validate_clause_list_def validate_ClauseExtraction_def validate_ExtractionMetadata_def
      validate_str_list_def check_clauses_consistent_with_contract_flag_def
      validate_clause_type_def validate_risk_level_def VALID_CLAUSE_TYPES_def
      VALID_RISK_LEVELS_def ClauseType_members_def RiskLevel_members_def
      example_pylib_simps native_defs required_field_def optional_field_def check_def
      example_data_def example_clause_def)

lemma validate_malformed:
  "validate_ai_response example_pylib MALFORMED_JSON =
     Inl (Exc AIResponseValidationError ''Failed to parse AI response as JSON.''
            (Some MALFORMED_JSON))"
proof -
  have s: "strip_fences MALFORMED_JSON = MALFORMED_JSON"
  proof -
    have "strip MALFORMED_JSON = MALFORMED_JSON"
      by (intro strip_unspaced) (simp_all add: MALFORMED_JSON_def py_isspace_def)
    moreover have "\<not> startswith MALFORMED_JSON fence"
      by (simp add: startswith_def MALFORMED_JSON_def fence_def)
    ultimately show ?thesis by (simp add: strip_fences_def)
  qed
  have j: "json_strip MALFORMED_JSON = MALFORMED_JSON"
    by (intro json_strip_unspaced) (simp_all add: MALFORMED_JSON_def json_ws_def)
  have l: "json_loads example_pylib MALFORMED_JSON = None"
    apply (simp add: example_pylib_def table_pylib_def j)
    apply (simp add: MALFORMED_JSON_def example_text_def)
    done
  have so: "search_object MALFORMED_JSON = None"
    by (simp add: search_object_def MALFORMED_JSON_def)
  show ?thesis
    by (simp add: validate_ai_response_def s parse_attempts_def l so)
qed

lemmas example_run_defs = retry_with_backoff_def call_ai_def MockAIClient_complete_def
  example_service_def catches_def isinstance_def default_retryable_exceptions_def
  default_base_delay_def select_document_def fetch_template_def example_db_def upt_rec calls_def

lemmas session_check_defs = flush_check_def commit_check_def analysis_row_ok_def clause_row_ok_def
  int4_def float_ge.simps float_le.simps new_analysis_def db_add_analysis_def

text \<open>
  Claim C5. When the document does not exist for the requesting tenant, the call raises
  \<^verbatim>\<open>DocumentNotFoundError\<close>; when it exists but its extracted text is absent or empty,
  the call raises \<^verbatim>\<open>EmptyDocumentError\<close>. In both cases the session is unchanged (no
  Analysis was added), the client's world is unchanged and the trace is empty (no provider
  call). The lookup finds a document exactly when the row of that id belongs to the tenant.
\<close>

theorem analyze_document_preconditions:
  "(select_document db document_id tenant_id = None \<longrightarrow>
      analyze_document svc document_id tenant_id template_id model_provider model_name db c =
        (Inl (Exc DocumentNotFoundError
                (''Document '' @ document_id @ '' not found for tenant '' @ tenant_id) None),
         db, c, []))
   \<and> (select_document db_e document_id_e tenant_id_e = Some document_e
       \<and> (extracted_text document_e = None \<or> extracted_text document_e = Some []) \<longrightarrow>
      analyze_document svc document_id_e tenant_id_e template_id model_provider model_name db_e c_e =
        (Inl (Exc EmptyDocumentError
                (''Document '' @ document_id_e @ '' has no extracted text'') None),
         db_e, c_e, []))
   \<and> (select_document db document_id tenant_id = Some document \<longleftrightarrow>
        documents db document_id = Some document \<and> doc_tenant_id document = tenant_id)"
  by (auto simp: analyze_document_def select_document_def split: option.splits)

theorem analyze_document_preconditions_witness:
  "analyze_document example_service ''doc-1'' ''tenant-2'' None ''anthropic'' ''model'' example_db
       \<lparr>responses = [Inr (example_text ''true'' ''0.9'')], call_count = 0\<rparr>
     = (Inl (Exc DocumentNotFoundError ''Document doc-1 not found for tenant tenant-2'' None),
        example_db, \<lparr>responses = [Inr (example_text ''true'' ''0.9'')], call_count = 0\<rparr>, [])
   \<and> analyze_document example_service ''doc-2'' ''tenant-1'' None ''anthropic'' ''model'' example_db
       \<lparr>responses = [Inr (example_text ''true'' ''0.9'')], call_count = 0\<rparr>
     = (Inl (Exc EmptyDocumentError ''Document doc-2 has no extracted text'' None),
        example_db, \<lparr>responses = [Inr (example_text ''true'' ''0.9'')], call_count = 0\<rparr>, [])"
  using analyze_document_preconditions
    [where db = example_db and document_id = "''doc-1''" and tenant_id = "''tenant-2''"
       and db_e = example_db and document_id_e = "''doc-2''" and tenant_id_e = "''tenant-1''"
       and document_e = "\<lparr>doc_tenant_id = ''tenant-1'', extracted_text = Some []\<rparr>"
       and svc = example_service and template_id = None
       and model_provider = "''anthropic''" and model_name = "''model''"
       and c = "\<lparr>responses = [Inr (example_text ''true'' ''0.9'')], call_count = 0\<rparr>"
       and c_e = "\<lparr>responses = [Inr (example_text ''true'' ''0.9'')], call_count = 0\<rparr>"]
  by (simp add: select_document_def example_db_def)

lemma oversized_text_shape:
  "oversized_text \<noteq> [] \<and> hd oversized_text = CHR ''{'' \<and> last oversized_text = CHR ''}''"
  by (simp add: oversized_text_def)

lemma validate_oversized_accepted:
  "validate_ai_response (svc_lib oversized_service) oversized_text =
     Inr \<lparr>is_contract = True, language = ''English'',
          clauses = [\<lparr>clause_type = ''LIABILITY'', risk_level = ''HIGH'', title = ''Cap'',
                      summary = ''Liability is capped.'',
                      original_text = ''Fees paid are the limit.'',
                      page_number = Some 2147483648, confidence_score = Finite 0.9\<rparr>],
          metadata = \<lparr>contract_type = ''Test'', parties_involved = [''A''],
                      effective_date = None, total_clauses_found = 1\<rparr>\<rparr>"
proof -
  have s: "strip_fences oversized_text = oversized_text"
  proof -
    have "strip oversized_text = oversized_text"
      using oversized_text_shape by (intro strip_unspaced) (simp_all add: py_isspace_def)
    moreover have "\<not> startswith oversized_text fence"
      by (simp add: startswith_def oversized_text_def fence_def)
    ultimately show ?thesis by (simp add: strip_fences_def)
  qed
  have j: "json_strip oversized_text = oversized_text"
    using oversized_text_shape by (intro json_strip_unspaced) (simp_all add: json_ws_def)
  let ?L = "table_pylib [(oversized_text, JObj oversized_data)]"
  have p: "parse_attempts ?L (strip_fences oversized_text) = Some (JObj oversized_data)"
    by (simp add: s parse_attempts_def table_pylib_def j)
  have L: "pyd_bool (table_pylib t) = native_bool" "pyd_str (table_pylib t) = native_str"
    "pyd_int (table_pylib t) = native_int" "pyd_float (table_pylib t) = native_float"
    "pyd_error_str (table_pylib t) data = ''validation error''" for t data
    by (simp_all add: table_pylib_def)
  have mv: "model_validate ?L (JObj oversized_data) =
     Some \<lparr>is_contract = True, language = ''English'',
          clauses = [\<lparr>clause_type = ''LIABILITY'', risk_level = ''HIGH'', title = ''Cap'',
                      summary = ''Liability is capped.'',
                      original_text = ''Fees paid are the limit.'',
                      page_number = Some 2147483648, confidence_score = Finite 0.9\<rparr>],
          metadata = \<lparr>contract_type = ''Test'', parties_involved = [''A''],
                      effective_date = None, total_clauses_found = 1\<rparr>\<rparr>"
    by (simp add: model_validate_def
        validate_clause_list_def validate_ClauseExtraction_def validate_ExtractionMetadata_def
        validate_str_list_def check_clauses_consistent_with_contract_flag_def
        validate_clause_type_def validate_risk_level_def VALID_CLAUSE_TYPES_def
        VALID_RISK_LEVELS_def ClauseType_members_def RiskLevel_members_def
        L native_defs required_field_def optional_field_def check_def oversized_data_def)
  have "validate_ai_response ?L oversized_text =
     Inr \<lparr>is_contract = True, language = ''English'',
          clauses = [\<lparr>clause_type = ''LIABILITY'', risk_level = ''HIGH'', title = ''Cap'',
                      summary = ''Liability is capped.'',
                      original_text = ''Fees paid are the limit.'',
                      page_number = Some 2147483648, confidence_score = Finite 0.9\<rparr>],
          metadata = \<lparr>contract_type = ''Test'', parties_involved = [''A''],
                      effective_date = None, total_clauses_found = 1\<rparr>\<rparr>"
    by (simp add: validate_ai_response_def p mv)
  then show ?thesis by (simp add: oversized_service_def)
qed

text \<open>
  Claim C2, as amended. When both preconditions pass, the Analysis is added to the session
  and flushed; a failure of the flush propagates before any provider call. Otherwise
  exactly one branch applies, by the result of the retry wrapper and of the validator: a
  timeout exception leaves the wrapper only after all three attempts and gives
  \<^verbatim>\<open>TIMED_OUT\<close> with its message; any other exception of the wrapper gives
  \<^verbatim>\<open>FAILED\<close> with its message; a validator failure gives \<^verbatim>\<open>FAILED\<close> with the
  validation message; success gives \<^verbatim>\<open>COMPLETED\<close>, \<^verbatim>\<open>completed_at\<close> set and one Clause
  per validated entry, carrying the id of the Analysis and the entry's fields. No exception
  raised inside the \<^verbatim>\<open>try\<close> propagates. In all branches \<^verbatim>\<open>retry_count\<close> is the number
  of provider calls minus one and the session holds the one new Analysis; the commit is
  attempted once, in the \<^verbatim>\<open>finally\<close> clause: if the database refuses it, its exception
  propagates and nothing is committed; if it goes through, the Analysis is returned unless
  the refresh fails, whose exception propagates too.
\<close>

theorem analyze_document_outcomes:
  assumes "select_document db document_id tenant_id = Some document"
    and "extracted_text document = Some document_text" and "document_text \<noteq> []"
  shows "case analyze_document svc document_id tenant_id template_id model_provider model_name db c of
     (res, db', c', tr) \<Rightarrow>
       db_fault db' = db_fault db \<and>
       (case flush_check (length (analyses db))
               (db_add_analysis
                  (new_analysis svc document_id document template_id
                     (fetch_template db template_id tenant_id) model_provider model_name) db) of
          Some exc \<Rightarrow>
            res = Inl exc \<and> tr = [] \<and> c' = c \<and> commits db' = commits db
            \<and> clause_rows db' = clause_rows db
        | None \<Rightarrow>
            (case retry_with_backoff
                    (call_ai svc document_text (fetch_template db template_id tenant_id) model_name)
                    3 default_base_delay default_retryable_exceptions (0, c) of
               (r, (n, c1), tr1) \<Rightarrow>
                 tr = tr1 \<and> c' = c1 \<and> 1 \<le> calls tr \<and> calls tr \<le> 3
                 \<and> (\<exists>a. analyses db' = analyses db @ [a]
                      \<and> analysis_id a = Some (fresh_ids db (length (analyses db)))
                      \<and> analysis_document_id a = document_id
                      \<and> analysis_tenant_id a = tenant_id
                      \<and> analysis_template_id a =
                            (if fetch_template db template_id tenant_id = None then None
                             else template_id)
                      \<and> analysis_model_provider a = model_provider
                      \<and> analysis_model_name a = model_name
                      \<and> started_at a = Some (svc_now svc 0)
                      \<and> retry_count a = int (calls tr) - 1
                      \<and> (case r of
                            Inl exc \<Rightarrow>
                              (if isinstance exc AITimeoutError
                               then status a = TIMED_OUT \<and> calls tr = 3
                               else status a = FAILED)
                              \<and> error_message a = Some (message exc) \<and> completed_at a = None
                              \<and> clause_rows db' = clause_rows db
                          | Inr raw \<Rightarrow>
                              (case validate_ai_response (svc_lib svc) raw of
                                 Inl exc \<Rightarrow>
                                   status a = FAILED \<and> error_message a = Some (message exc)
                                   \<and> completed_at a = None \<and> clause_rows db' = clause_rows db
                               | Inr validated \<Rightarrow>
                                   status a = COMPLETED \<and> completed_at a = Some (svc_now svc 1)
                                   \<and> error_message a = None
                                   \<and> (\<exists>new. clause_rows db' = clause_rows db @ new
                                         \<and> list_all2
                                              (\<lambda>cl cd.
                                                 clause_analysis_id cl = analysis_id a
                                                 \<and> ClauseType_value (clause_clause_type cl) = clause_type cd
                                                 \<and> RiskLevel_value (clause_risk_level cl) = risk_level cd
                                                 \<and> clause_title cl = title cd
                                                 \<and> clause_summary cl = summary cd
                                                 \<and> clause_original_text cl = original_text cd
                                                 \<and> clause_page_number cl = page_number cd
                                                 \<and> clause_confidence_score cl = confidence_score cd)
                                              new (clauses validated))))
                      \<and> (case commit_check db' of
                            Some exc \<Rightarrow> res = Inl exc \<and> commits db' = commits db
                          | None \<Rightarrow>
                              commits db' = commits db + 1
                              \<and> (case db_fault db Refresh of
                                    Some exc \<Rightarrow> res = Inl exc
                                  | None \<Rightarrow> res = Inr a)))))"
proof (cases "flush_check (length (analyses db))
               (db_add_analysis
                  (new_analysis svc document_id document template_id
                     (fetch_template db template_id tenant_id) model_provider model_name) db)")
  case (Some exc)
  from analyze_document_flush_failed [OF assms Some] Some show ?thesis
    by (simp add: db_add_analysis_def)
next
  case None
  let ?f = "call_ai svc document_text (fetch_template db template_id tenant_id) model_name"
  obtain r n c1 tr1 where
    rt: "retry_with_backoff ?f 3 default_base_delay default_retryable_exceptions (0, c)
           = (r, (n, c1), tr1)"
    by (metis prod.exhaust)
  have upt3: "[0..<nat 3] = [0, 1, 2]"
    by (simp add: upt_rec)
  from rt have rl: "retry_loop ?f default_base_delay default_retryable_exceptions [0, 1, 2] None (0, c)
           = (r, (n, c1), tr1)"
    unfolding retry_with_backoff_def upt3 .
  from retry_loop_counter [OF rl] have n: "n = int (calls tr1)" by simp
  from retry_loop_calls_le [OF rl] have le: "calls tr1 \<le> 3" by simp
  from retry_loop_calls_pos [OF rl] have pos: "1 \<le> calls tr1" .
  from n pos have rc: "max (n - 1) 0 = int (calls tr1) - 1" by simp
  from assms(1) have tenant: "doc_tenant_id document = tenant_id"
    by (auto simp: select_document_def split: option.splits if_splits)
  show ?thesis
  proof (cases r)
    case (Inl exc)
    have three: "isinstance exc AITimeoutError \<Longrightarrow> calls tr1 = 3"
    proof -
      assume "isinstance exc AITimeoutError"
      then have "catches default_retryable_exceptions exc"
        by (simp add: catches_def default_retryable_exceptions_def)
      from retry_loop_retryable_result [OF rl [unfolded Inl] this] show ?thesis by simp
    qed
    from analyze_document_call_failed [OF assms None rt [unfolded Inl]] None rt Inl rc le pos
      three tenant
    show ?thesis
      by (simp add: Let_def new_analysis_def commit_check_commits split: option.splits)
  next
    case (Inr raw)
    show ?thesis
    proof (cases "validate_ai_response (svc_lib svc) raw")
      case (Inl exc)
      from analyze_document_response_invalid [OF assms None rt [unfolded Inr] Inl]
        None rt Inr Inl rc le pos tenant
      show ?thesis
        by (simp add: Let_def new_analysis_def commit_check_commits split: option.splits)
    next
      case (Inr validated)
      have rows: "list_all2
          (\<lambda>cl cd. clause_analysis_id cl = aid
             \<and> ClauseType_value (clause_clause_type cl) = clause_type cd
             \<and> RiskLevel_value (clause_risk_level cl) = risk_level cd
             \<and> clause_title cl = title cd
             \<and> clause_summary cl = summary cd
             \<and> clause_original_text cl = original_text cd
             \<and> clause_page_number cl = page_number cd
             \<and> clause_confidence_score cl = confidence_score cd)
          (map (\<lambda>cd. make_clause aid (the (ClauseType_of (clause_type cd)))
                        (the (RiskLevel_of (risk_level cd))) cd) (clauses validated))
          (clauses validated)" for aid
        unfolding list_all2_map1
      proof (rule list.rel_refl_strong)
        fix cd assume "cd \<in> set (clauses validated)"
        from validated_clauses_in_enums [OF Inr this] obtain ct rl where
          "ClauseType_of (clause_type cd) = Some ct" "RiskLevel_of (risk_level cd) = Some rl"
          by auto
        then show "clause_analysis_id
             (make_clause aid (the (ClauseType_of (clause_type cd)))
                (the (RiskLevel_of (risk_level cd))) cd) = aid
           \<and> ClauseType_value (clause_clause_type
                (make_clause aid (the (ClauseType_of (clause_type cd)))
                   (the (RiskLevel_of (risk_level cd))) cd)) = clause_type cd
           \<and> RiskLevel_value (clause_risk_level
                (make_clause aid (the (ClauseType_of (clause_type cd)))
                   (the (RiskLevel_of (risk_level cd))) cd)) = risk_level cd
           \<and> clause_title (make_clause aid (the (ClauseType_of (clause_type cd)))
                (the (RiskLevel_of (risk_level cd))) cd) = title cd
           \<and> clause_summary (make_clause aid (the (ClauseType_of (clause_type cd)))
                (the (RiskLevel_of (risk_level cd))) cd) = summary cd
           \<and> clause_original_text (make_clause aid (the (ClauseType_of (clause_type cd)))
                (the (RiskLevel_of (risk_level cd))) cd) = original_text cd
           \<and> clause_page_number (make_clause aid (the (ClauseType_of (clause_type cd)))
                (the (RiskLevel_of (risk_level cd))) cd) = page_number cd
           \<and> clause_confidence_score (make_clause aid (the (ClauseType_of (clause_type cd)))
                (the (RiskLevel_of (risk_level cd))) cd) = confidence_score cd"
          by (simp add: make_clause_def ClauseType_of_value RiskLevel_of_value)
      qed
      from analyze_document_completed [OF assms None rt [unfolded \<open>r = Inr raw\<close>] Inr]
        None rt \<open>r = Inr raw\<close> Inr rc le pos tenant rows
      show ?thesis
        by (simp add: Let_def new_analysis_def commit_check_commits split: option.splits)
    qed
  qed
qed

theorem analyze_document_outcomes_witness:
  "(case analyze_document example_service ''doc-1'' ''tenant-1'' None ''anthropic'' ''model''
           example_db
           \<lparr>responses = [Inl (Exc AITimeoutError ''timeout 1'' None),
                         Inl (Exc AITimeoutError ''timeout 2'' None),
                         Inr (example_text ''true'' ''0.9'')],
            call_count = 0\<rparr> of
      (res, db', c', tr) \<Rightarrow>
        call_count c' = 3 \<and> commits db' = 1 \<and> length (clause_rows db') = 1
        \<and> (\<exists>a. res = Inr a \<and> analyses db' = [a] \<and> status a = COMPLETED \<and> retry_count a = 2
               \<and> completed_at a = Some 1001 \<and> error_message a = None))
   \<and> (case analyze_document example_service ''doc-1'' ''tenant-1'' None ''anthropic'' ''model''
           example_db
           \<lparr>responses = [Inl (Exc AITimeoutError ''timeout 1'' None),
                         Inl (Exc AITimeoutError ''timeout 2'' None),
                         Inl (Exc AITimeoutError ''timeout 3'' None),
                         Inl (Exc AITimeoutError ''timeout 4'' None)],
            call_count = 0\<rparr> of
      (res, db', c', tr) \<Rightarrow>
        call_count c' = 3 \<and> commits db' = 1 \<and> clause_rows db' = []
        \<and> (\<exists>a. res = Inr a \<and> analyses db' = [a] \<and> status a = TIMED_OUT \<and> retry_count a = 2
               \<and> error_message a = Some ''timeout 3''))
   \<and> (case analyze_document example_service ''doc-1'' ''tenant-1'' None ''anthropic'' ''model''
           example_db \<lparr>responses = [Inr MALFORMED_JSON], call_count = 0\<rparr> of
      (res, db', c', tr) \<Rightarrow>
        call_count c' = 1 \<and> commits db' = 1 \<and> clause_rows db' = []
        \<and> (\<exists>a. res = Inr a \<and> analyses db' = [a] \<and> status a = FAILED \<and> retry_count a = 0
               \<and> error_message a = Some ''Failed to parse AI response as JSON.''))"
proof (intro conjI)
  show "case analyze_document example_service ''doc-1'' ''tenant-1'' None ''anthropic'' ''model''
           example_db
           \<lparr>responses = [Inl (Exc AITimeoutError ''timeout 1'' None),
                         Inl (Exc AITimeoutError ''timeout 2'' None),
                         Inr (example_text ''true'' ''0.9'')],
            call_count = 0\<rparr> of
      (res, db', c', tr) \<Rightarrow>
        call_count c' = 3 \<and> commits db' = 1 \<and> length (clause_rows db') = 1
        \<and> (\<exists>a. res = Inr a \<and> analyses db' = [a] \<and> status a = COMPLETED \<and> retry_count a = 2
               \<and> completed_at a = Some 1001 \<and> error_message a = None)"
    using analyze_document_outcomes
      [where db = example_db and document_id = "''doc-1''" and tenant_id = "''tenant-1''"
         and document = "\<lparr>doc_tenant_id = ''tenant-1'', extracted_text = Some ''Some contract text''\<rparr>"
         and document_text = "''Some contract text''"
         and svc = example_service and template_id = None
         and model_provider = "''anthropic''" and model_name = "''model''"
         and c = "\<lparr>responses = [Inl (Exc AITimeoutError ''timeout 1'' None),
                         Inl (Exc AITimeoutError ''timeout 2'' None),
                         Inr (example_text ''true'' ''0.9'')],
            call_count = 0\<rparr>"]
    by (simp add: example_run_defs session_check_defs split: prod.splits)
       (auto simp: example_service_def validate_example_accepted example_db_def
          session_check_defs list_all2_Cons2)
next
  show "case analyze_document example_service ''doc-1'' ''tenant-1'' None ''anthropic'' ''model''
           example_db
           \<lparr>responses = [Inl (Exc AITimeoutError ''timeout 1'' None),
                         Inl (Exc AITimeoutError ''timeout 2'' None),
                         Inl (Exc AITimeoutError ''timeout 3'' None),
                         Inl (Exc AITimeoutError ''timeout 4'' None)],
            call_count = 0\<rparr> of
      (res, db', c', tr) \<Rightarrow>
        call_count c' = 3 \<and> commits db' = 1 \<and> clause_rows db' = []
        \<and> (\<exists>a. res = Inr a \<and> analyses db' = [a] \<and> status a = TIMED_OUT \<and> retry_count a = 2
               \<and> error_message a = Some ''timeout 3'')"
    using analyze_document_outcomes
      [where db = example_db and document_id = "''doc-1''" and tenant_id = "''tenant-1''"
         and document = "\<lparr>doc_tenant_id = ''tenant-1'', extracted_text = Some ''Some contract text''\<rparr>"
         and document_text = "''Some contract text''"
         and svc = example_service and template_id = None
         and model_provider = "''anthropic''" and model_name = "''model''"
         and c = "\<lparr>responses = [Inl (Exc AITimeoutError ''timeout 1'' None),
                         Inl (Exc AITimeoutError ''timeout 2'' None),
                         Inl (Exc AITimeoutError ''timeout 3'' None),
                         Inl (Exc AITimeoutError ''timeout 4'' None)],
            call_count = 0\<rparr>"]
    by (simp add: example_run_defs session_check_defs split: prod.splits)
       (auto simp: example_db_def session_check_defs)
next
  show "case analyze_document example_service ''doc-1'' ''tenant-1'' None ''anthropic'' ''model''
           example_db \<lparr>responses = [Inr MALFORMED_JSON], call_count = 0\<rparr> of
      (res, db', c', tr) \<Rightarrow>
        call_count c' = 1 \<and> commits db' = 1 \<and> clause_rows db' = []
        \<and> (\<exists>a. res = Inr a \<and> analyses db' = [a] \<and> status a = FAILED \<and> retry_count a = 0
               \<and> error_message a = Some ''Failed to parse AI response as JSON.'')"
    using analyze_document_outcomes
      [where db = example_db and document_id = "''doc-1''" and tenant_id = "''tenant-1''"
         and document = "\<lparr>doc_tenant_id = ''tenant-1'', extracted_text = Some ''Some contract text''\<rparr>"
         and document_text = "''Some contract text''"
         and svc = example_service and template_id = None
         and model_provider = "''anthropic''" and model_name = "''model''"
         and c = "\<lparr>responses = [Inr MALFORMED_JSON], call_count = 0\<rparr>"]
    by (simp add: example_run_defs session_check_defs split: prod.splits)
       (auto simp: example_service_def validate_malformed example_db_def session_check_defs)
qed

text \<open>
  Claim C2 as stated fails: a response that the validator accepts can hold a clause that
  the database refuses (here a page number beyond the 32-bit column). The commit in the
  \<^verbatim>\<open>finally\<close> clause then raises: the failure propagates to the caller although the
  Analysis exists, and nothing is committed.
\<close>

theorem analyze_document_commit_failure_counterexample:
  "select_document example_db ''doc-1'' ''tenant-1''
     = Some \<lparr>doc_tenant_id = ''tenant-1'', extracted_text = Some ''Some contract text''\<rparr>
   \<and> (\<exists>validated. validate_ai_response (svc_lib oversized_service) oversized_text
         = Inr validated)
   \<and> (case analyze_document oversized_service ''doc-1'' ''tenant-1'' None ''anthropic'' ''model''
             example_db \<lparr>responses = [Inr oversized_text], call_count = 0\<rparr> of
        (res, db', c', tr) \<Rightarrow>
          res = Inl (Exc DataError ''clause row refused by the database'' None)
          \<and> tr = [Call] \<and> commits db' = 0 \<and> map status (analyses db') = [COMPLETED])"
proof -
  have doc: "select_document example_db ''doc-1'' ''tenant-1''
     = Some \<lparr>doc_tenant_id = ''tenant-1'', extracted_text = Some ''Some contract text''\<rparr>"
    by (simp add: select_document_def example_db_def)
  have fl: "flush_check (length (analyses example_db))
           (db_add_analysis
              (new_analysis oversized_service ''doc-1''
                 \<lparr>doc_tenant_id = ''tenant-1'', extracted_text = Some ''Some contract text''\<rparr>
                 None (fetch_template example_db None ''tenant-1'') ''anthropic'' ''model'')
              example_db) = None"
    by (simp add: session_check_defs example_db_def)
  have rt: "retry_with_backoff
           (call_ai oversized_service ''Some contract text''
              (fetch_template example_db None ''tenant-1'') ''model'')
           3 default_base_delay default_retryable_exceptions
           (0, \<lparr>responses = [Inr oversized_text], call_count = 0\<rparr>)
         = (Inr oversized_text, (1, \<lparr>responses = [], call_count = 1\<rparr>),
            [Call])"
    by (simp add: retry_with_backoff_def call_ai_def MockAIClient_complete_def
        oversized_service_def upt_rec)
  have ex: "clause_rows example_db = []" "db_fault example_db = (\<lambda>op. None)"
    "commits example_db = 0" "analyses example_db = []"
    by (simp_all add: example_db_def)
  from analyze_document_completed [OF doc _ _ fl rt validate_oversized_accepted]
  have "case analyze_document oversized_service ''doc-1'' ''tenant-1'' None ''anthropic'' ''model''
             example_db \<lparr>responses = [Inr oversized_text], call_count = 0\<rparr> of
        (res, db', c', tr) \<Rightarrow>
          res = Inl (Exc DataError ''clause row refused by the database'' None)
          \<and> tr = [Call] \<and> commits db' = 0 \<and> map status (analyses db') = [COMPLETED]"
    by (simp add: Let_def commit_check_def clause_row_ok_def int4_def make_clause_def ex
        new_analysis_def)
  with doc validate_oversized_accepted show ?thesis by simp
qed

lemma AnthropicClient_complete_state:
  "snd (AnthropicClient_complete post msgs model n)
     = snd (post ''/v1/messages'' (AnthropicClient_body msgs model) n)"
  by (cases "post ''/v1/messages'' (AnthropicClient_body msgs model) n")
     (auto simp: AnthropicClient_complete_def Let_def split: sum.splits option.splits)

lemma AnthropicClient_complete_status_error:
  "fst (post ''/v1/messages'' (AnthropicClient_body msgs model) n) = Inr resp \<Longrightarrow>
   \<not> is_success resp \<Longrightarrow>
   fst (AnthropicClient_complete post msgs model n)
     = Inl (Exc HTTPStatusError (status_error resp) None)"
  by (cases "post ''/v1/messages'' (AnthropicClient_body msgs model) n")
     (auto simp: AnthropicClient_complete_def Let_def raise_for_status_def isinstance_def)

lemma call_ai_after_calls:
  assumes "svc_ai svc = AnthropicClient_complete post"
  shows "after_calls (call_ai svc text tmpl mn) (k, n) i =
     (k + int i,
      after_calls (post ''/v1/messages''
         (AnthropicClient_body (build_extraction_prompt (svc_system_prompt svc) text tmpl) mn)) n i)"
proof (induction i arbitrary: k n)
  case 0
  then show ?case by simp
next
  case (Suc i)
  have "snd (call_ai svc text tmpl mn (k, n)) =
     (k + 1, snd (post ''/v1/messages''
         (AnthropicClient_body (build_extraction_prompt (svc_system_prompt svc) text tmpl) mn) n))"
    using AnthropicClient_complete_state
      [of post "build_extraction_prompt (svc_system_prompt svc) text tmpl" mn n]
    by (auto simp: call_ai_def assms split: prod.splits)
  with Suc.IH show ?case by simp
qed

lemma call_ai_status_error:
  assumes "svc_ai svc = AnthropicClient_complete post"
    and "nth_outcome (post ''/v1/messages''
           (AnthropicClient_body (build_extraction_prompt (svc_system_prompt svc) text tmpl) mn)) n i
         = Inr resp"
    and "\<not> is_success resp"
  shows "nth_outcome (call_ai svc text tmpl mn) (k, n) i
           = Inl (Exc HTTPStatusError (status_error resp) None)"
proof -
  let ?g = "post ''/v1/messages''
           (AnthropicClient_body (build_extraction_prompt (svc_system_prompt svc) text tmpl) mn)"
  let ?msgs = "build_extraction_prompt (svc_system_prompt svc) text tmpl"
  from assms(2) have "fst (?g (after_calls ?g n i)) = Inr resp"
    by (simp add: nth_outcome_def)
  from AnthropicClient_complete_status_error
    [of post ?msgs mn "after_calls ?g n i" resp, OF this assms(3)]
  have e: "fst (AnthropicClient_complete post ?msgs mn (after_calls ?g n i))
     = Inl (Exc HTTPStatusError (status_error resp) None)" .
  have "nth_outcome (call_ai svc text tmpl mn) (k, n) i
      = fst (call_ai svc text tmpl mn (k + int i, after_calls ?g n i))"
    by (simp only: nth_outcome_def call_ai_after_calls [OF assms(1)])
  also have "\<dots> = fst (AnthropicClient_complete post ?msgs mn (after_calls ?g n i))"
    by (simp add: call_ai_def assms(1) split: prod.splits)
  finally show ?thesis using e by simp

qed

text \<open>
  Claim C10. The default retryable classes are exactly \<^verbatim>\<open>AITimeoutError\<close> and
  \<^verbatim>\<open>httpx.HTTPStatusError\<close>. A response whose status is not 2xx, a 400 or 404 included,
  makes Variant A raise \<^verbatim>\<open>HTTPStatusError\<close>, which the wrapper retries with backoff:
  when the first three exchanges all answer with such a status, the provider is called
  three times with sleeps of 1, 2 and 4, and the last status error reaches the
  orchestrator's last \<^verbatim>\<open>except\<close> clause: the Analysis is \<^verbatim>\<open>FAILED\<close>, not
  \<^verbatim>\<open>TIMED_OUT\<close>, with that error's message and \<^verbatim>\<open>retry_count\<close> 2. It is committed
  and returned when the session accepts the commit and the refresh; the provider is not
  called at all when the session refuses the flush of the new Analysis.
\<close>

theorem http_status_failures_retried_then_failed:
  assumes "select_document db document_id tenant_id = Some document"
    and "extracted_text document = Some document_text" and "document_text \<noteq> []"
    and "svc_ai svc = AnthropicClient_complete post"
    and "body = AnthropicClient_body
                  (build_extraction_prompt (svc_system_prompt svc) document_text
                     (fetch_template db template_id tenant_id)) model_name"
    and "nth_outcome (post ''/v1/messages'' body) n 0 = Inr first_response"
    and "nth_outcome (post ''/v1/messages'' body) n 1 = Inr second_response"
    and "nth_outcome (post ''/v1/messages'' body) n 2 = Inr third_response"
    and "\<not> is_success first_response" and "\<not> is_success second_response"
    and "\<not> is_success third_response"
  shows "default_retryable_exceptions = [AITimeoutError, HTTPStatusError]
     \<and> raise_for_status first_response
         = Some (Exc HTTPStatusError (status_error first_response) None)
     \<and> catches default_retryable_exceptions (Exc HTTPStatusError (status_error first_response) None)
     \<and> (case analyze_document svc document_id tenant_id template_id model_provider model_name db n of
          (res, db', n', tr) \<Rightarrow>
            (case flush_check (length (analyses db))
                    (db_add_analysis
                       (new_analysis svc document_id document template_id
                          (fetch_template db template_id tenant_id) model_provider model_name)
                       db) of
               Some exc \<Rightarrow> res = Inl exc \<and> tr = [] \<and> n' = n
             | None \<Rightarrow>
                 tr = [Call, Sleep 1, Call, Sleep 2, Call, Sleep 4]
                 \<and> n' = after_calls (post ''/v1/messages'' body) n 3
                 \<and> (\<exists>a. analyses db' = analyses db @ [a]
                       \<and> status a = FAILED
                       \<and> error_message a = Some (status_error third_response)
                       \<and> retry_count a = 2
                       \<and> (case commit_check db of
                             Some exc \<Rightarrow> res = Inl exc \<and> commits db' = commits db
                           | None \<Rightarrow>
                               commits db' = commits db + 1
                               \<and> (case db_fault db Refresh of
                                     Some exc \<Rightarrow> res = Inl exc
                                   | None \<Rightarrow> res = Inr a)))))"
proof -
  let ?tmpl = "fetch_template db template_id tenant_id"
  let ?f = "call_ai svc document_text ?tmpl model_name"
  note o0 = call_ai_status_error [OF assms(4) assms(6) [unfolded assms(5)] assms(9), of 0]
  note o1 = call_ai_status_error [OF assms(4) assms(7) [unfolded assms(5)] assms(10), of 0]
  note o2 = call_ai_status_error [OF assms(4) assms(8) [unfolded assms(5)] assms(11), of 0]
  have upt3: "[0..<nat 3] = [0, 1, 2]" by (simp add: upt_rec)
  have "\<forall>i<length [0, 1, 2 :: nat]. retryable_failure default_retryable_exceptions
           (nth_outcome ?f (0, n) i)"
    using o0 o1 o2
    by (simp add: All_less_Suc numeral_3_eq_3 numeral_2_eq_2 retryable_failure_def catches_def
        isinstance_def default_retryable_exceptions_def)
  from retry_loop_exhausted [OF this, of default_base_delay None]
  have "retry_loop ?f default_base_delay default_retryable_exceptions [0, 1, 2] None (0, n)
      = (Inl (Exc HTTPStatusError (status_error third_response) None),
         (3, after_calls (post ''/v1/messages'' body) n 3),
         [Call, Sleep 1, Call, Sleep 2, Call, Sleep 4])"
    using o2 call_ai_after_calls [OF assms(4), of document_text ?tmpl model_name 0 n 3]
    by (simp add: retry_trace_def default_base_delay_def assms(5) numeral_3_eq_3 numeral_2_eq_2
        del: retry_loop.simps after_calls.simps)
  then have rt: "retry_with_backoff ?f 3 default_base_delay default_retryable_exceptions (0, n)
      = (Inl (Exc HTTPStatusError (status_error third_response) None),
         (3, after_calls (post ''/v1/messages'' body) n 3),
         [Call, Sleep 1, Call, Sleep 2, Call, Sleep 4])"
    unfolding retry_with_backoff_def upt3 .
  have first: "default_retryable_exceptions = [AITimeoutError, HTTPStatusError]
     \<and> raise_for_status first_response
         = Some (Exc HTTPStatusError (status_error first_response) None)
     \<and> catches default_retryable_exceptions (Exc HTTPStatusError (status_error first_response) None)"
    using assms(9)
    by (simp add: isinstance_def default_retryable_exceptions_def catches_def
        raise_for_status_def)
  show ?thesis
  proof (cases "flush_check (length (analyses db))
                    (db_add_analysis
                       (new_analysis svc document_id document template_id
                          (fetch_template db template_id tenant_id) model_provider model_name)
                       db)")
    case (Some exc)
    from analyze_document_flush_failed [OF assms(1-3) Some] Some first show ?thesis
      by simp
  next
    case None
    from analyze_document_call_failed [OF assms(1-3) None rt] None first show ?thesis
      by (simp add: Let_def isinstance_def commit_check_analyses split: option.splits)
  qed
qed

theorem http_status_failures_retried_then_failed_witness:
  "case analyze_document example_anthropic_service ''doc-1'' ''tenant-1'' None ''anthropic''
          ''model'' example_db
          [Inr (error_response 400 ''Client error 400 Bad Request''),
           Inr (error_response 404 ''Client error 404 Not Found''),
           Inr (error_response 404 ''Client error 404 Not Found'')] of
     (res, db', n', tr) \<Rightarrow>
       tr = [Call, Sleep 1, Call, Sleep 2, Call, Sleep 4] \<and> n' = [] \<and> commits db' = 1
       \<and> (\<exists>a. res = Inr a \<and> analyses db' = [a] \<and> status a = FAILED
             \<and> error_message a = Some ''Client error 404 Not Found'' \<and> retry_count a = 2)"
  using http_status_failures_retried_then_failed
    [where db = example_db and document_id = "''doc-1''" and tenant_id = "''tenant-1''"
       and document = "\<lparr>doc_tenant_id = ''tenant-1'', extracted_text = Some ''Some contract text''\<rparr>"
       and document_text = "''Some contract text''"
       and svc = example_anthropic_service and post = scripted_transport
       and template_id = None and model_provider = "''anthropic''" and model_name = "''model''"
       and body = "AnthropicClient_body
                  (build_extraction_prompt (svc_system_prompt example_anthropic_service)
                     ''Some contract text'' (fetch_template example_db None ''tenant-1'')) ''model''"
       and n = "[Inr (error_response 400 ''Client error 400 Bad Request''),
           Inr (error_response 404 ''Client error 404 Not Found''),
           Inr (error_response 404 ''Client error 404 Not Found'')]"
       and first_response = "error_response 400 ''Client error 400 Bad Request''"
       and second_response = "error_response 404 ''Client error 404 Not Found''"
       and third_response = "error_response 404 ''Client error 404 Not Found''"]
  by (simp add: select_document_def example_db_def example_anthropic_service_def
        nth_outcome_def scripted_transport_def is_success_def error_response_def
        numeral_2_eq_2 numeral_3_eq_3 session_check_defs split: prod.splits)
     blast

section \<open>Properties of the job worker\<close>





text \<open>When the attribute lookup fails under the lock, the orchestrator is not invoked: the
  lock is released, the dedup key is deleted and the job is acknowledged.\<close>

lemma process_job_missing_attribute:
  "process_job None example_job (contended_state\<lparr>other_locks := {}\<rparr>) =
     (contended_state\<lparr>other_locks := {}\<rparr>,
      [RedisSetNX ''analysis:processed:msg-1'', LockAcquired ''analysis:lock:doc-1'',
       LockReleased ''analysis:lock:doc-1'', RedisDelete ''analysis:processed:msg-1'',
       QueueAck example_job])"
  by (simp add: process_job_def locked_analysis_def Let_def isinstance_def example_job_def
      contended_state_def)

section \<open>Fence stripping\<close>

lemma json_ws_isspace: "json_ws c \<Longrightarrow> py_isspace c"
  by (auto simp: json_ws_def py_isspace_def)

lemma dropWhile_all_prefix:
  "list_all P l \<Longrightarrow> xs \<noteq> [] \<Longrightarrow> \<not> P (hd xs) \<Longrightarrow> dropWhile P (l @ xs @ ys) = xs @ ys"
  by (induction l) (simp_all add: dropWhile_hd)

lemma rev_dropWhile_all_suffix:
  "list_all P r \<Longrightarrow> xs \<noteq> [] \<Longrightarrow> \<not> P (last xs) \<Longrightarrow> rev (dropWhile P (rev (xs @ r))) = xs"
proof -
  assume a: "list_all P r" "xs \<noteq> []" "\<not> P (last xs)"
  then have "dropWhile P (rev r @ rev xs @ []) = rev xs @ []"
    by (intro dropWhile_all_prefix) (simp_all add: hd_rev list_all_iff)
  then show ?thesis by simp
qed

lemma json_strip_decompose:
  "\<exists>l r. J = l @ json_strip J @ r \<and> list_all json_ws l \<and> list_all json_ws r"
proof -
  let ?ys = "dropWhile json_ws J"
  have "J = takeWhile json_ws J @ ?ys" by simp
  moreover have "?ys = rev (dropWhile json_ws (rev ?ys)) @ rev (takeWhile json_ws (rev ?ys))"
    by (metis rev_append rev_rev_ident takeWhile_dropWhile_id)
  ultimately have "J = takeWhile json_ws J @ json_strip J @ rev (takeWhile json_ws (rev ?ys))"
    by (simp add: json_strip_def)
  moreover have "list_all json_ws (takeWhile json_ws J)"
    by (simp add: list_all_iff) (meson set_takeWhileD)
  moreover have "list_all json_ws (rev (takeWhile json_ws (rev ?ys)))"
    by (simp add: list_all_iff) (meson set_takeWhileD)
  ultimately show ?thesis by blast
qed

lemma brace_not_space [simp]:
  "\<not> py_isspace (CHR ''{'')" "\<not> py_isspace (CHR ''}'')" "\<not> py_isspace (CHR 0x60)"
  "\<not> json_ws (CHR ''{'')" "\<not> json_ws (CHR ''}'')" "py_isspace (CHR 0x0A)"
  by (simp_all add: py_isspace_def json_ws_def)

lemma strip_fences_bare:
  assumes "list_all json_ws l" "list_all json_ws r"
    and "core \<noteq> []" "hd core = CHR ''{''" "last core = CHR ''}''"
  shows "strip_fences (l @ core @ r) = core"
proof -
  have pl: "list_all py_isspace l" and pr: "list_all py_isspace r"
    using assms(1,2) by (auto simp: list_all_iff json_ws_isspace)
  have "lstrip (l @ core @ r) = core @ r"
    unfolding lstrip_def using pl assms(3,4) by (intro dropWhile_all_prefix) simp_all
  moreover have "rstrip (core @ r) = core"
    unfolding rstrip_def using pr assms(3,5) by (intro rev_dropWhile_all_suffix) simp_all
  ultimately have "strip (l @ core @ r) = core" by (simp add: strip_def)
  moreover have "\<not> startswith core fence"
    using assms(3,4) by (cases core) (auto simp: startswith_def fence_def)
  ultimately show ?thesis by (simp add: strip_fences_def)
qed

lemma strip_fences_fenced:
  assumes "list_all json_ws l" "list_all json_ws r"
    and "core \<noteq> []" "hd core = CHR ''{''" "last core = CHR ''}''"
    and "tag = [] \<or> tag = ''json''"
  shows "strip_fences (fenced tag (l @ core @ r)) = core @ r"
proof -
  let ?J = "l @ core @ r"
  let ?W = "fenced tag ?J"
  have pl: "list_all py_isspace l" and pr: "list_all py_isspace r"
    using assms(1,2) by (auto simp: list_all_iff json_ws_isspace)
  have W: "?W = fence @ tag @ [CHR 0x0A] @ ?J @ [CHR 0x0A] @ fence" by (simp add: fenced_def)
  have "strip ?W = ?W"
    by (intro strip_unspaced) (simp_all add: fenced_def fence_def)
  moreover have sw: "startswith ?W fence"
    by (simp add: startswith_def fenced_def fence_def)
  moreover have op: "sub_opening_fence ?W = core @ r @ [CHR 0x0A] @ fence"
  proof -
    have d: "dropWhile py_isspace (([CHR 0x0A] @ l) @ core @ (r @ [CHR 0x0A] @ fence))
               = core @ (r @ [CHR 0x0A] @ fence)"
      using pl assms(3,4) by (intro dropWhile_all_prefix) simp_all
    from assms(6) show ?thesis
    proof
      assume "tag = []"
      with d sw show ?thesis
        by (simp add: sub_opening_fence_def fenced_def fence_def startswith_def)
    next
      assume "tag = ''json''"
      with d sw show ?thesis
        by (simp add: sub_opening_fence_def fenced_def fence_def startswith_def)
    qed
  qed
  moreover have "sub_closing_fence (core @ r @ [CHR 0x0A] @ fence) = core @ r"
  proof -
    let ?t = "core @ r @ [CHR 0x0A] @ fence"
    have t: "?t = (core @ r @ [CHR 0x0A]) @ fence" by simp
    have "rstrip ?t = ?t"
      unfolding rstrip_def by (intro rev_dropWhile_last) (simp_all add: fence_def)
    moreover have "endswith ?t fence"
      by (simp add: endswith_def fence_def)
    moreover have "take (length ?t - 3) ?t = core @ r @ [CHR 0x0A]"
      by (simp add: fence_def)
    moreover have "endswith (core @ r @ [CHR 0x0A]) [CHR 0x0A]"
      by (simp add: endswith_def)
    moreover have "butlast (core @ r @ [CHR 0x0A]) = core @ r"
      by (simp add: butlast_append)
    ultimately show ?thesis
      by (simp add: sub_closing_fence_def Let_def)
  qed
  ultimately show ?thesis by (simp add: strip_fences_def)
qed

lemma search_object_core:
  assumes "list_all json_ws r" "core \<noteq> []" "hd core = CHR ''{''" "last core = CHR ''}''"
    and "tl core \<noteq> []"
  shows "search_object (core @ r) = Some core"
proof -
  obtain rest where core: "core = CHR ''{'' # rest" and rest: "rest \<noteq> []"
    using assms(2,3,5) by (cases core) auto
  from assms(4) core rest have lr: "last rest = CHR ''}''" by simp
  have nr: "list_all (\<lambda>c. c \<noteq> CHR ''}'') r"
    using assms(1) by (auto simp: list_all_iff)
  have "rev (dropWhile (\<lambda>c. c \<noteq> CHR ''}'') (rev (rest @ r))) = rest"
    using nr rest lr by (intro rev_dropWhile_all_suffix) simp_all
  moreover have "CHR ''}'' \<in> set (rest @ r)"
    using rest lr by (metis UnI1 last_in_set set_append)
  ultimately show ?thesis
    by (simp add: search_object_def core)
qed

lemma parse_attempts_trailing:
  assumes "ignores_json_whitespace L" "list_all json_ws r"
    and "core \<noteq> []" "hd core = CHR ''{''" "last core = CHR ''}''"
  shows "parse_attempts L (core @ r) = parse_attempts L core"
proof -
  have "list_all json_ws []" by simp
  with assms(1,2) have "json_loads L ([] @ core @ r) = json_loads L core"
    unfolding ignores_json_whitespace_def by blast
  then have l: "json_loads L (core @ r) = json_loads L core" by simp
  show ?thesis
  proof (cases "tl core = []")
    case True
    with assms(3,4,5) show ?thesis by (cases core) auto
  next
    case False
    from search_object_core [OF assms(2-5) False]
      search_object_core [OF _ assms(3-5) False, of "[]"]
    show ?thesis by (simp add: parse_attempts_def l split: option.splits)
  qed
qed

lemma parse_attempts_fenced:
  assumes "ignores_json_whitespace L" "json_object_text J" "tag = [] \<or> tag = ''json''"
  shows "parse_attempts L (strip_fences (fenced tag J)) = parse_attempts L (strip_fences J)"
proof -
  from json_strip_decompose [of J] obtain l r where
    J: "J = l @ json_strip J @ r" and l: "list_all json_ws l" and r: "list_all json_ws r"
    by blast
  let ?core = "json_strip J"
  from assms(2) have c: "?core \<noteq> []" "hd ?core = CHR ''{''" "last ?core = CHR ''}''"
    by (simp_all add: json_object_text_def Let_def)
  have "strip_fences (fenced tag (l @ ?core @ r)) = ?core @ r"
    by (rule strip_fences_fenced [OF l r c assms(3)])
  moreover have "strip_fences (l @ ?core @ r) = ?core"
    by (rule strip_fences_bare [OF l r c])
  ultimately show ?thesis
    using parse_attempts_trailing [OF assms(1) r c] J by metis
qed

lemma dropWhile_all_append: "list_all P l \<Longrightarrow> dropWhile P (l @ xs) = dropWhile P xs"
  by (induction l) simp_all

lemma json_strip_surrounded:
  assumes "list_all json_ws l" "list_all json_ws r"
  shows "json_strip (l @ s @ r) = json_strip s"
proof -
  have a: "dropWhile json_ws (l @ s @ r) = dropWhile json_ws (s @ r)"
    using assms(1) by (rule dropWhile_all_append)
  have rr: "list_all json_ws (rev r)" using assms(2) by (simp add: list_all_iff)
  show ?thesis
  proof (cases "list_all json_ws s")
    case True
    have e1: "dropWhile json_ws (s @ r) = []"
      unfolding dropWhile_eq_Nil_conv using True assms(2) by (auto simp: list_all_iff)
    have e2: "dropWhile json_ws s = []"
      unfolding dropWhile_eq_Nil_conv using True by (auto simp: list_all_iff)
    have "json_strip (l @ s @ r) = rev (dropWhile json_ws (rev (dropWhile json_ws (s @ r))))"
      by (simp only: json_strip_def a)
    also have "\<dots> = []" by (simp only: e1 rev.simps dropWhile.simps)
    also have "[] = json_strip s" by (simp only: json_strip_def e2 rev.simps dropWhile.simps)
    finally show ?thesis .
  next
    case False
    then obtain x where "x \<in> set s" "\<not> json_ws x" by (auto simp: list_all_iff)
    then have "dropWhile json_ws (s @ r) = dropWhile json_ws s @ r"
      by (rule dropWhile_append1)
    then have "rev (dropWhile json_ws (s @ r)) = rev r @ rev (dropWhile json_ws s)" by simp
    then have "dropWhile json_ws (rev (dropWhile json_ws (s @ r)))
        = dropWhile json_ws (rev (dropWhile json_ws s))"
      by (simp only: dropWhile_all_append [OF rr])
    then show ?thesis by (simp only: json_strip_def a)
  qed
qed

lemma table_pylib_ignores_whitespace: "ignores_json_whitespace (table_pylib table)"
  by (simp add: ignores_json_whitespace_def table_pylib_def json_strip_surrounded)

lemma example_pylib_ignores_whitespace: "ignores_json_whitespace example_pylib"
  by (simp add: example_pylib_def table_pylib_ignores_whitespace)

lemma example_text_object: "json_object_text (example_text flag score)"
  using example_text_shape [of flag score]
  by (simp add: json_object_text_def json_strip_example)

lemma take4_cases:
  "take 4 xs = [] \<or> (\<exists>a. take 4 xs = [a] \<and> xs = [a]) \<or> (\<exists>a b. take 4 xs = [a, b] \<and> xs = [a, b])
   \<or> (\<exists>a b c. take 4 xs = [a, b, c] \<and> xs = [a, b, c])
   \<or> (\<exists>a b c d ys. xs = a # b # c # d # ys)"
proof (cases xs)
  case Nil then show ?thesis by simp
next
  case (Cons a t1)
  show ?thesis
  proof (cases t1)
    case Nil with Cons show ?thesis by simp
  next
    case (Cons b t2)
    note c2 = this
    show ?thesis
    proof (cases t2)
      case Nil with \<open>xs = a # t1\<close> c2 show ?thesis by simp
    next
      case (Cons c t3)
      show ?thesis
      proof (cases t3)
        case Nil with \<open>xs = a # t1\<close> c2 Cons show ?thesis by simp
      next
        case (Cons d t4)
        with \<open>xs = a # t1\<close> c2 \<open>t2 = c # t3\<close> show ?thesis by simp
      qed
    qed
  qed
qed

lemma startswith_tag_json:
  "startswith (tag @ CHR 0x0A # rest) ''json'' = startswith tag ''json''"
  using take4_cases [of tag]
  by (auto simp: startswith_def)

lemma residual_tag_Nil: "residual_tag tag = [] \<Longrightarrow> tag = [] \<or> tag = ''json''"
  by (auto simp: residual_tag_def startswith_def split: if_splits)

lemma residual_tag_subset: "set (residual_tag tag) \<subseteq> set tag"
  by (auto simp: residual_tag_def dest: in_set_dropD)

lemma sub_closing_fence_line: "sub_closing_fence (xs @ [CHR 0x0A] @ fence) = xs"
proof -
  let ?t = "xs @ [CHR 0x0A] @ fence"
  have "rstrip ?t = ?t"
    unfolding rstrip_def by (intro rev_dropWhile_last) (simp_all add: fence_def)
  moreover have "endswith ?t fence"
    by (simp add: endswith_def fence_def)
  moreover have "take (length ?t - 3) ?t = xs @ [CHR 0x0A]"
    by (simp add: fence_def)
  moreover have "endswith (xs @ [CHR 0x0A]) [CHR 0x0A]"
    by (simp add: endswith_def)
  ultimately show ?thesis
    by (simp add: sub_closing_fence_def Let_def butlast_append)
qed

lemma strip_fences_fenced_tag:
  assumes "language_tag tag" and "residual_tag tag \<noteq> []"
  shows "strip_fences (fenced tag J) = residual_tag tag @ [CHR 0x0A] @ J"
proof -
  let ?W = "fenced tag J"
  have "strip ?W = ?W"
    by (intro strip_unspaced) (simp_all add: fenced_def fence_def)
  moreover have sw: "startswith ?W fence"
    by (simp add: startswith_def fenced_def fence_def)
  moreover have "sub_opening_fence ?W = residual_tag tag @ [CHR 0x0A] @ J @ [CHR 0x0A] @ fence"
  proof -
    have d3: "drop 3 ?W = tag @ CHR 0x0A # (J @ [CHR 0x0A] @ fence)"
      by (simp add: fenced_def fence_def)
    have sj: "startswith (drop 3 ?W) ''json'' = startswith tag ''json''"
      unfolding d3 by (rule startswith_tag_json)
    have r: "(if startswith tag ''json'' then drop 4 (drop 3 ?W) else drop 3 ?W)
        = residual_tag tag @ CHR 0x0A # (J @ [CHR 0x0A] @ fence)"
    proof (cases "startswith tag ''json''")
      case True
      then have e: "take (length ''json'') tag = ''json''" unfolding startswith_def .
      from arg_cong [OF e, of length] have "4 \<le> length tag" by simp
      with True show ?thesis by (simp add: d3 residual_tag_def)
    next
      case False
      then show ?thesis by (simp add: d3 residual_tag_def)
    qed
    from hd_in_set [OF assms(2)] residual_tag_subset [of tag]
    have "hd (residual_tag tag) \<in> set tag" by blast
    with assms(1) have "\<not> py_isspace (hd (residual_tag tag))"
      by (simp add: language_tag_def list_all_iff)
    with assms(2)
    have "dropWhile py_isspace (residual_tag tag @ CHR 0x0A # (J @ [CHR 0x0A] @ fence))
        = residual_tag tag @ CHR 0x0A # (J @ [CHR 0x0A] @ fence)"
      by (intro dropWhile_hd) simp_all
    with sw sj r show ?thesis
      by (simp add: sub_opening_fence_def Let_def)
  qed
  moreover have "sub_closing_fence ((residual_tag tag @ [CHR 0x0A] @ J) @ [CHR 0x0A] @ fence)
      = residual_tag tag @ [CHR 0x0A] @ J"
    by (rule sub_closing_fence_line)
  ultimately show ?thesis by (simp add: strip_fences_def)
qed

lemma search_object_skip:
  assumes "CHR ''{'' \<notin> set pre"
  shows "search_object (pre @ xs) = search_object xs"
proof -
  have "dropWhile (\<lambda>c. c \<noteq> CHR ''{'') (pre @ xs) = dropWhile (\<lambda>c. c \<noteq> CHR ''{'') xs"
    by (rule dropWhile_append2) (use assms in auto)
  then show ?thesis by (simp only: search_object_def)
qed

lemma parse_attempts_core:
  assumes "core \<noteq> []" "hd core = CHR ''{''" "last core = CHR ''}''"
  shows "parse_attempts L core = json_loads L core"
proof -
  have "tl core \<noteq> []" using assms by (cases core) auto
  from search_object_core [OF _ assms this, of "[]"]
  show ?thesis by (simp add: parse_attempts_def split: option.splits)
qed

lemma parse_attempts_fenced_tag:
  assumes "ignores_json_whitespace L" "json_object_text J" "language_tag tag"
    and "residual_tag tag \<noteq> []"
    and "json_loads L (residual_tag tag @ [CHR 0x0A] @ J) = None"
  shows "parse_attempts L (strip_fences (fenced tag J)) = parse_attempts L (strip_fences J)"
proof -
  from json_strip_decompose [of J] obtain l r where
    J: "J = l @ json_strip J @ r" and l: "list_all json_ws l" and r: "list_all json_ws r"
    by blast
  let ?core = "json_strip J"
  from assms(2) have c: "?core \<noteq> []" "hd ?core = CHR ''{''" "last ?core = CHR ''}''"
    by (simp_all add: json_object_text_def Let_def)
  have tlc: "tl ?core \<noteq> []" using c by (cases ?core) auto
  have bare: "strip_fences J = ?core"
    using strip_fences_bare [OF l r c] J by simp
  have n1: "CHR ''{'' \<notin> set tag"
    using assms(3) unfolding language_tag_def list_all_iff by blast
  with residual_tag_subset [of tag] have n2: "CHR ''{'' \<notin> set (residual_tag tag)" by blast
  have n3: "CHR ''{'' \<notin> set l"
  proof
    assume "CHR ''{'' \<in> set l"
    with l have "json_ws (CHR ''{'')" unfolding list_all_iff by blast
    then show False by simp
  qed
  from n2 n3 have nb: "CHR ''{'' \<notin> set (residual_tag tag @ [CHR 0x0A] @ l)" by simp
  have "search_object (residual_tag tag @ [CHR 0x0A] @ J)
      = search_object ((residual_tag tag @ [CHR 0x0A] @ l) @ ?core @ r)"
    using J by simp
  also have "\<dots> = search_object (?core @ r)" using nb by (rule search_object_skip)
  also have "\<dots> = Some ?core" by (rule search_object_core [OF r c tlc])
  finally have so: "search_object (residual_tag tag @ [CHR 0x0A] @ J) = Some ?core" .
  have "parse_attempts L (strip_fences (fenced tag J)) = json_loads L ?core"
    using assms(5) so
    by (simp add: strip_fences_fenced_tag [OF assms(3,4)] parse_attempts_def)
  also have "\<dots> = parse_attempts L ?core"
    by (rule parse_attempts_core [OF c, symmetric])
  finally show ?thesis by (simp add: bare)
qed

lemma language_tag_plain: "language_tag []" "language_tag ''json''" "language_tag ''python''"
  by (simp_all add: language_tag_def py_isspace_def)

lemma example_pylib_rejects_tagged:
  "json_loads example_pylib (''python'' @ [CHR 0x0A] @ example_text flag score) = None"
proof -
  let ?t = "''python'' @ [CHR 0x0A] @ example_text flag score"
  have "json_strip ?t = ?t"
    using example_text_shape [of flag score]
    by (intro json_strip_unspaced) (simp_all add: json_ws_def)
  then show ?thesis
    apply (simp add: example_pylib_def table_pylib_def)
    apply (simp add: example_text_def)
    done
qed

text \<open>
  Claim C9. For a decoder that ignores JSON whitespace around a text, as \<^verbatim>\<open>json.loads\<close>
  does, and a text \<open>J\<close> in the shape of a JSON object text: wrapping \<open>J\<close> in a code
  fence leaves the decoded data the same. The opening pattern removes the fence and the tag
  \<^verbatim>\<open>json\<close>; what is left of any other language tag (a word without whitespace or
  opening brace) stays in front of \<open>J\<close>, where the decoder rejects the text that starts
  with it and the search for the outermost object finds \<open>J\<close>'s object again. So both
  inputs validate to the same typed result, or both fail with an exception of the same
  class and message; the exception's \<^verbatim>\<open>raw_response\<close> is in each case the text that
  was passed in.
\<close>

theorem fenced_and_bare_validate_alike:
  assumes "ignores_json_whitespace L" and "json_object_text J"
    and "language_tag tag"
    and "residual_tag tag \<noteq> [] \<longrightarrow> json_loads L (residual_tag tag @ [CHR 0x0A] @ J) = None"
  shows "parse_attempts L (strip_fences (fenced tag J)) = parse_attempts L (strip_fences J)
     \<and> (case validate_ai_response L J of
          Inr validated \<Rightarrow> validate_ai_response L (fenced tag J) = Inr validated
        | Inl exc \<Rightarrow>
            validate_ai_response L (fenced tag J)
              = Inl (Exc (etype exc) (message exc) (Some (fenced tag J)))
            \<and> raw_response exc = Some J)"
proof -
  have p: "parse_attempts L (strip_fences (fenced tag J)) = parse_attempts L (strip_fences J)"
  proof (cases "residual_tag tag = []")
    case True
    then have "tag = [] \<or> tag = ''json''" by (rule residual_tag_Nil)
    with assms(1,2) show ?thesis by (rule parse_attempts_fenced)
  next
    case False
    with assms(4) have "json_loads L (residual_tag tag @ [CHR 0x0A] @ J) = None" by simp
    with assms(1-3) False show ?thesis by (rule parse_attempts_fenced_tag)
  qed
  then show ?thesis
    by (auto simp: validate_ai_response_def split: option.splits json.splits sum.splits)
qed

theorem fenced_and_bare_validate_alike_witness:
  "validate_ai_response example_pylib (fenced ''json'' (example_text ''true'' ''0.9'')) =
     Inr \<lparr>is_contract = True, language = ''English'',
          clauses = [\<lparr>clause_type = ''LIABILITY'', risk_level = ''HIGH'', title = ''Cap'',
                      summary = ''Liability is capped.'',
                      original_text = ''Fees paid are the limit.'',
                      page_number = Some 1, confidence_score = Finite 0.9\<rparr>],
          metadata = \<lparr>contract_type = ''Test'', parties_involved = [''A''],
                      effective_date = None, total_clauses_found = 1\<rparr>\<rparr>
   \<and> validate_ai_response example_pylib (fenced ''python'' (example_text ''true'' ''0.9'')) =
       validate_ai_response example_pylib (fenced ''json'' (example_text ''true'' ''0.9''))
   \<and> validate_ai_response example_pylib (fenced [] (example_text ''false'' ''0.9'')) =
       Inl (Exc AIResponseValidationError
              ''AI response failed schema validation: validation error''
              (Some (fenced [] (example_text ''false'' ''0.9''))))"
  using fenced_and_bare_validate_alike
      [OF example_pylib_ignores_whitespace example_text_object language_tag_plain(2),
       of "''true''" "''0.9''"]
    fenced_and_bare_validate_alike
      [OF example_pylib_ignores_whitespace example_text_object language_tag_plain(3),
       of "''true''" "''0.9''"]
    fenced_and_bare_validate_alike
      [OF example_pylib_ignores_whitespace example_text_object language_tag_plain(1),
       of "''false''" "''0.9''"]
    example_pylib_rejects_tagged [of "''true''" "''0.9''"]
  by (simp add: validate_example_accepted validate_example_rejected residual_tag_def
        startswith_def)

end
